theory Spec2Isabelle
  imports Main
begin

section \<open>The job collection\<close>

text \<open>
  The repository holds two versions of the class \<open>MongooseQueue\<close>:
  \<^item> \<open>src/lib/mongoose-queue.js\<close>, which decides admission from the leases alone
    (the lease-only variant);
  \<^item> \<open>src/unnamed/part_000\<close>, which keeps a boolean field \<open>process\<close> on every job
    (the explicit-flag variant) and has the extra method \<open>recoverProcessTasks\<close>.

  Both use the same method names. The definitions below keep the names of
  \<open>src/lib/mongoose-queue.js\<close>; the methods of \<open>src/unnamed/part_000\<close> that differ carry
  the suffix \<open>_flag\<close>. The methods \<open>add\<close>, \<open>ack\<close>, \<open>error\<close> and \<open>reset\<close> are the same text
  in both files and are modelled once.

  A job document. Dates are milliseconds since the epoch (what \<open>Date.now()\<close> returns),
  \<open>_id\<close> is the field \<open>jid\<close>, \<open>done\<close> is \<open>jdone\<close> and \<open>error\<close> is \<open>jerror\<close> (absent = \<open>None\<close>).
  The field \<open>process\<close> is read and written by \<open>src/unnamed/part_000\<close> only.
\<close>

record job =
  jid :: nat
  payload :: nat
  createdAt :: int
  blockedUntil :: int
  retries :: int
  jdone :: bool
  jerror :: "string option"
  workerId :: string
  workerHostname :: string
  process :: bool

text \<open>
  The options of the constructor that the methods read (defaults 30000, 5 and 1), and
  the queue object: \<open>this.workerId\<close>, \<open>this.workerHostname\<close>, \<open>this.options\<close>.
\<close>

record queue_options =
  blockDuration :: int
  maxRetries :: int
  maxJobsInProcess :: int

record mqueue =
  this_workerId :: string
  this_workerHostname :: string
  this_options :: queue_options

text \<open>
  The errors a callback receives. The source builds all of its own with \<open>new Error(msg)\<close>:
  \<^item> \<open>ValidationError\<close> is \<open>'Payload missing.'\<close>;
  \<^item> \<open>ConcurrencyLimitError n\<close> is \<open>"Too jobs in process status, only " + n + " is allowed. ..."\<close>;
  \<^item> \<open>NotFoundError\<close> is \<open>'Job id invalid, job not found.'\<close>;
  \<^item> \<open>StoreError e\<close> is an error \<open>e\<close> that a call of the store reported, passed on as it is.
\<close>

datatype qerror =
  ValidationError
  | ConcurrencyLimitError int
  | NotFoundError
  | StoreError string

text \<open>
  What the callers receive: \<open>{id, payload, blockedUntil, done}\<close> from \<open>get\<close> and \<open>ack\<close>, with
  \<open>error\<close> added by the method \<open>error\<close>.
\<close>

record job_view =
  view_id :: nat
  view_payload :: nat
  view_blockedUntil :: int
  view_done :: bool

record job_error_view = job_view +
  view_error :: "string option"

section \<open>The calls of the store\<close>

text \<open>
  A call of the store either completes on the collection or fails. A failing call is
  described by \<open>Fault e a\<close>: the callback receives the error \<open>e\<close> and, as its second
  argument, the absent value \<open>a\<close>; the collection is left as it was.
  The second argument of the callback of \<open>count\<close> is a number when the call completes.
\<close>

datatype absent = Undefined | Null

datatype fault = Fault string absent

datatype jsnum = Absent absent | Num int

text \<open>
  JavaScript's \<open>x < n\<close> and \<open>!x\<close> for such a value and a number \<open>n\<close>: \<open>undefined\<close> converts to
  NaN, which is below nothing; \<open>null\<close> converts to 0.
\<close>

fun js_lt :: "jsnum \<Rightarrow> int \<Rightarrow> bool" where
  "js_lt (Num k) n = (k < n)"
| "js_lt (Absent Null) n = (0 < n)"
| "js_lt (Absent Undefined) n = False"

fun js_not :: "jsnum \<Rightarrow> bool" where
  "js_not (Num k) = (k = 0)"
| "js_not (Absent a) = True"

text \<open>\<open>Model.count(filter, cb)\<close>: the arguments \<open>(err, number)\<close> of the callback.\<close>

fun count :: "(job \<Rightarrow> bool) \<Rightarrow> fault option \<Rightarrow> job list \<Rightarrow> string option \<times> jsnum" where
  "count P None jobs = (None, Num (int (length (filter P jobs))))"
| "count P (Some (Fault e a)) jobs = (Some e, Absent a)"

text \<open>
  The document a query selects: among the documents that satisfy \<open>P\<close>, one with the least
  sort key; among several of those, the first in the collection's own order. The result
  is its position. Without a \<open>sort\<close> option the key is constant and the first match is taken.
\<close>

fun select_one :: "(job \<Rightarrow> int) \<Rightarrow> (job \<Rightarrow> bool) \<Rightarrow> job list \<Rightarrow> nat option" where
  "select_one key P [] = None"
| "select_one key P (j # js) =
     (case select_one key P js of
        None \<Rightarrow> (if P j then Some 0 else None)
      | Some i \<Rightarrow> (if P j \<and> key j \<le> key (js ! i) then Some 0 else Some (Suc i)))"

text \<open>
  \<open>Model.findOneAndUpdate(filter, update, {new: true, sort: ...}, cb)\<close>: one atomic step that
  selects a document, updates it in place and hands the updated document to the callback;
  \<open>null\<close> when no document matches. The result is \<open>((err, doc), collection)\<close>.
\<close>

definition findOneAndUpdate ::
  "(job \<Rightarrow> bool) \<Rightarrow> (job \<Rightarrow> job) \<Rightarrow> (job \<Rightarrow> int) \<Rightarrow> fault option \<Rightarrow> job list
     \<Rightarrow> (string option \<times> job option) \<times> job list" where
  "findOneAndUpdate P upd key f jobs =
     (case f of
        Some (Fault e a) \<Rightarrow> ((Some e, None), jobs)
      | None \<Rightarrow>
          (case select_one key P jobs of
             None \<Rightarrow> ((None, None), jobs)
           | Some i \<Rightarrow> ((None, Some (upd (jobs ! i))), jobs[i := upd (jobs ! i)])))"

definition unsorted :: "job \<Rightarrow> int" where
  "unsorted j = 0"

text \<open>\<open>Model.remove(filter, cb)\<close>: deletes every matching document; the callback gets \<open>err\<close>.\<close>

definition remove_matching :: "(job \<Rightarrow> bool) \<Rightarrow> fault option \<Rightarrow> job list \<Rightarrow> string option \<times> job list" where
  "remove_matching P f jobs =
     (case f of
        Some (Fault e a) \<Rightarrow> (Some e, jobs)
      | None \<Rightarrow> (None, filter (\<lambda>j. \<not> P j) jobs))"

text \<open>
  \<open>Model.update(filter, update, {multi: true})\<close>: updates every matching document. The
  callback receives Mongo's raw response \<open>{ok, nModified, n}\<close>, the counts of the write,
  not the documents.
\<close>

record raw_response =
  raw_ok :: int
  raw_nModified :: int
  raw_n :: int

definition update_multi ::
  "(job \<Rightarrow> bool) \<Rightarrow> (job \<Rightarrow> job) \<Rightarrow> fault option \<Rightarrow> job list
     \<Rightarrow> (string option \<times> raw_response option) \<times> job list" where
  "update_multi P upd f jobs =
     (case f of
        Some (Fault e a) \<Rightarrow> ((Some e, None), jobs)
      | None \<Rightarrow>
          ((None, Some \<lparr>raw_ok = 1, raw_nModified = int (length (filter P jobs)),
                         raw_n = int (length (filter P jobs))\<rparr>),
           map (\<lambda>j. if P j then upd j else j) jobs))"

text \<open>
  \<open>document.save(cb)\<close>: inserts the document; the callback gets either \<open>err\<close> or the
  saved document.
\<close>

definition save :: "job \<Rightarrow> fault option \<Rightarrow> job list \<Rightarrow> (string + job) \<times> job list" where
  "save d f jobs =
     (case f of
        Some (Fault e a) \<Rightarrow> (Inl e, jobs)
      | None \<Rightarrow> (Inr d, jobs @ [d]))"

section \<open>The methods of \<open>MongooseQueue\<close>\<close>

text \<open>
  Every method takes the readings of \<open>Date.now()\<close> it makes, in the order it makes them,
  the outcome of each call of the store it issues, and the collection; it returns what
  the callback \<open>cb\<close> receives (\<open>Inl\<close> an error, \<open>Inr\<close> the value, \<open>None\<close> for \<open>null\<close>) and the
  collection afterwards.
\<close>

text \<open>
  \<open>add(payload, cb)\<close>. The schema of \<open>JobModel\<close> (\<open>../schemas/job-schema\<close>) is not among the
  sources, so the document that \<open>new this.JobModel({payload: payload})\<close> builds from the
  schema's defaults is the parameter \<open>fresh\<close>, whose payload the constructor sets.
\<close>

definition add :: "nat option \<Rightarrow> job \<Rightarrow> fault option \<Rightarrow> job list \<Rightarrow> (qerror + nat) \<times> job list" where
  "add p fresh f jobs =
     (case p of
        None \<Rightarrow> (Inl ValidationError, jobs)
      | Some pl \<Rightarrow>
          (case save (fresh\<lparr>payload := pl\<rparr>) f jobs of
             (Inl e, jobs') \<Rightarrow> (Inl (StoreError e), jobs')
           | (Inr d, jobs') \<Rightarrow> (Inr (jid d), jobs')))"

text \<open>The filter of a claim, at the reading \<open>now\<close> of the clock.\<close>

definition claimable :: "mqueue \<Rightarrow> int \<Rightarrow> job \<Rightarrow> bool" where
  "claimable q now j =
     (blockedUntil j < now \<and> retries j \<le> maxRetries (this_options q) \<and> \<not> jdone j)"

definition claimable_flag :: "mqueue \<Rightarrow> int \<Rightarrow> job \<Rightarrow> bool" where
  "claimable_flag q now j =
     (blockedUntil j < now \<and> retries j \<le> maxRetries (this_options q) \<and> \<not> jdone j \<and> \<not> process j)"

text \<open>The filter of the admission count of \<open>src/lib/mongoose-queue.js\<close>.\<close>

definition in_process :: "mqueue \<Rightarrow> int \<Rightarrow> job \<Rightarrow> bool" where
  "in_process q now j =
     (now < blockedUntil j \<and> retries j \<le> maxRetries (this_options q) \<and> \<not> jdone j)"

text \<open>The update of a claim: \<open>$set\<close> and \<open>$inc\<close>.\<close>

definition claim :: "mqueue \<Rightarrow> int \<Rightarrow> job \<Rightarrow> job" where
  "claim q now j =
     j\<lparr>blockedUntil := now + blockDuration (this_options q),
       workerId := this_workerId q,
       workerHostname := this_workerHostname q,
       retries := retries j + 1\<rparr>"

definition claim_flag :: "mqueue \<Rightarrow> int \<Rightarrow> job \<Rightarrow> job" where
  "claim_flag q now j =
     j\<lparr>blockedUntil := now + blockDuration (this_options q),
       workerId := this_workerId q,
       workerHostname := this_workerHostname q,
       process := True,
       retries := retries j + 1\<rparr>"

definition view :: "job \<Rightarrow> job_view" where
  "view j = \<lparr>view_id = jid j, view_payload = payload j,
             view_blockedUntil = blockedUntil j, view_done = jdone j\<rparr>"

definition error_view :: "job \<Rightarrow> job_error_view" where
  "error_view j = \<lparr>view_id = jid j, view_payload = payload j,
             view_blockedUntil = blockedUntil j, view_done = jdone j, view_error = jerror j\<rparr>"

text \<open>The callback that \<open>get\<close> gives to \<open>findOneAndUpdate\<close>.\<close>

fun claimed :: "(string option \<times> job option) \<times> job list \<Rightarrow> (qerror + job_view option) \<times> job list" where
  "claimed ((Some e, d), jobs) = (Inl (StoreError e), jobs)"
| "claimed ((None, None), jobs) = (Inr None, jobs)"
| "claimed ((None, Some j), jobs) = (Inr (Some (view j)), jobs)"

text \<open>
  \<open>get(cb)\<close> of \<open>src/lib/mongoose-queue.js\<close>. It reads the clock three times: \<open>t0\<close> for the
  filter of the count, \<open>t1\<close> for the filter of the claim and \<open>t2\<close> for the new lease. The
  callback of \<open>count\<close> does not look at \<open>err\<close>; it compares \<open>tasksInProcess\<close> with \<open>maxJobs\<close>.
\<close>

definition get ::
  "mqueue \<Rightarrow> int \<Rightarrow> int \<Rightarrow> int \<Rightarrow> fault option \<Rightarrow> fault option \<Rightarrow> job list
     \<Rightarrow> (qerror + job_view option) \<times> job list" where
  "get q t0 t1 t2 fc fu jobs =
     (let maxJobs = maxJobsInProcess (this_options q);
          tasksInProcess = snd (count (in_process q t0) fc jobs)
      in if js_lt tasksInProcess maxJobs
         then claimed (findOneAndUpdate (claimable q t1) (claim q t2) createdAt fu jobs)
         else (Inl (ConcurrencyLimitError maxJobs), jobs))"

text \<open>\<open>get(cb)\<close> of \<open>src/unnamed/part_000\<close>: the count is of the documents with \<open>process: true\<close>.\<close>

definition get_flag ::
  "mqueue \<Rightarrow> int \<Rightarrow> int \<Rightarrow> fault option \<Rightarrow> fault option \<Rightarrow> job list
     \<Rightarrow> (qerror + job_view option) \<times> job list" where
  "get_flag q t1 t2 fc fu jobs =
     (let maxJobs = maxJobsInProcess (this_options q);
          tasksInProcess = snd (count process fc jobs)
      in if js_lt tasksInProcess maxJobs
         then claimed (findOneAndUpdate (claimable_flag q t1) (claim_flag q t2) createdAt fu jobs)
         else (Inl (ConcurrencyLimitError maxJobs), jobs))"

text \<open>\<open>availableProcesses(cb)\<close>, in \<open>src/lib/mongoose-queue.js\<close> only.\<close>

definition availableProcesses :: "mqueue \<Rightarrow> int \<Rightarrow> fault option \<Rightarrow> job list \<Rightarrow> qerror + jsnum option" where
  "availableProcesses q now f jobs =
     (case count (claimable q now) f jobs of
        (Some e, number) \<Rightarrow> Inl (StoreError e)
      | (None, number) \<Rightarrow> (if js_not number then Inr None else Inr (Some number)))"

text \<open>\<open>ack(jobId, cb)\<close> and \<open>error(jobId, error, cb)\<close>.\<close>

definition ack :: "nat \<Rightarrow> fault option \<Rightarrow> job list \<Rightarrow> (qerror + job_view) \<times> job list" where
  "ack jobId f jobs =
     (case findOneAndUpdate (\<lambda>j. jid j = jobId) (\<lambda>j. j\<lparr>jdone := True\<rparr>) unsorted f jobs of
        ((Some e, d), jobs') \<Rightarrow> (Inl (StoreError e), jobs')
      | ((None, None), jobs') \<Rightarrow> (Inl NotFoundError, jobs')
      | ((None, Some j), jobs') \<Rightarrow> (Inr (view j), jobs'))"

definition error :: "nat \<Rightarrow> string \<Rightarrow> fault option \<Rightarrow> job list \<Rightarrow> (qerror + job_error_view) \<times> job list" where
  "error jobId msg f jobs =
     (case findOneAndUpdate (\<lambda>j. jid j = jobId) (\<lambda>j. j\<lparr>jdone := True, jerror := Some msg\<rparr>)
             unsorted f jobs of
        ((Some e, d), jobs') \<Rightarrow> (Inl (StoreError e), jobs')
      | ((None, None), jobs') \<Rightarrow> (Inl NotFoundError, jobs')
      | ((None, Some j), jobs') \<Rightarrow> (Inr (error_view j), jobs'))"

text \<open>
  \<open>clean(cb)\<close>: \<open>src/lib/mongoose-queue.js\<close> removes the documents with \<open>done: true\<close>;
  \<open>src/unnamed/part_000\<close> also those with \<open>retries > maxRetries\<close>. \<open>reset(cb)\<close> removes all.
\<close>

definition clean :: "mqueue \<Rightarrow> fault option \<Rightarrow> job list \<Rightarrow> qerror option \<times> job list" where
  "clean q f jobs =
     (case remove_matching jdone f jobs of
        (Some e, jobs') \<Rightarrow> (Some (StoreError e), jobs')
      | (None, jobs') \<Rightarrow> (None, jobs'))"

definition clean_flag :: "mqueue \<Rightarrow> fault option \<Rightarrow> job list \<Rightarrow> qerror option \<times> job list" where
  "clean_flag q f jobs =
     (case remove_matching (\<lambda>j. jdone j \<or> maxRetries (this_options q) < retries j) f jobs of
        (Some e, jobs') \<Rightarrow> (Some (StoreError e), jobs')
      | (None, jobs') \<Rightarrow> (None, jobs'))"

definition reset :: "fault option \<Rightarrow> job list \<Rightarrow> qerror option \<times> job list" where
  "reset f jobs =
     (case remove_matching (\<lambda>j. True) f jobs of
        (Some e, jobs') \<Rightarrow> (Some (StoreError e), jobs')
      | (None, jobs') \<Rightarrow> (None, jobs'))"

text \<open>\<open>recoverProcessTasks(cb)\<close>, in \<open>src/unnamed/part_000\<close> only.\<close>

definition orphaned :: "job \<Rightarrow> bool" where
  "orphaned j = (\<not> jdone j \<and> process j)"

definition recover :: "mqueue \<Rightarrow> int \<Rightarrow> job \<Rightarrow> job" where
  "recover q now j =
     j\<lparr>blockedUntil := now + blockDuration (this_options q),
       workerId := this_workerId q,
       workerHostname := this_workerHostname q,
       process := False,
       retries := retries j + 1\<rparr>"

definition recoverProcessTasks ::
  "mqueue \<Rightarrow> int \<Rightarrow> fault option \<Rightarrow> job list \<Rightarrow> (qerror + raw_response option) \<times> job list" where
  "recoverProcessTasks q now f jobs =
     (case update_multi orphaned (recover q now) f jobs of
        ((Some e, r), jobs') \<Rightarrow> (Inl (StoreError e), jobs')
      | ((None, None), jobs') \<Rightarrow> (Inr None, jobs')
      | ((None, Some r), jobs') \<Rightarrow> (Inr (Some r), jobs'))"

section \<open>Calls and the record of one job\<close>

text \<open>
  A call of any method of the two files, with the clock readings and the outcomes of the
  store calls it meets, and the collection it leaves behind. \<open>availableProcesses\<close> only counts.
\<close>

datatype call =
  Add "nat option" job "fault option"
  | Get int int int "fault option" "fault option"
  | Get_flag int int "fault option" "fault option"
  | Ack nat "fault option"
  | Error nat string "fault option"
  | Clean "fault option"
  | Clean_flag "fault option"
  | Reset "fault option"
  | AvailableProcesses int "fault option"
  | RecoverProcessTasks int "fault option"

fun run :: "mqueue \<Rightarrow> call \<Rightarrow> job list \<Rightarrow> job list" where
  "run q (Add p fresh f) jobs = snd (add p fresh f jobs)"
| "run q (Get t0 t1 t2 fc fu) jobs = snd (get q t0 t1 t2 fc fu jobs)"
| "run q (Get_flag t1 t2 fc fu) jobs = snd (get_flag q t1 t2 fc fu jobs)"
| "run q (Ack i f) jobs = snd (ack i f jobs)"
| "run q (Error i msg f) jobs = snd (error i msg f jobs)"
| "run q (Clean f) jobs = snd (clean q f jobs)"
| "run q (Clean_flag f) jobs = snd (clean_flag q f jobs)"
| "run q (Reset f) jobs = snd (reset f jobs)"
| "run q (AvailableProcesses now f) jobs = jobs"
| "run q (RecoverProcessTasks now f) jobs = snd (recoverProcessTasks q now f jobs)"

text \<open>The record with a given \<open>_id\<close>.\<close>

definition find_job :: "nat \<Rightarrow> job list \<Rightarrow> job option" where
  "find_job i jobs = find (\<lambda>j. jid j = i) jobs"

text \<open>The call is a \<open>get\<close> that hands the job with \<open>_id\<close> \<open>i\<close> to its caller.\<close>

fun returns_id :: "(qerror + job_view option) \<Rightarrow> nat \<Rightarrow> bool" where
  "returns_id (Inr (Some v)) i = (view_id v = i)"
| "returns_id r i = False"

fun claims :: "mqueue \<Rightarrow> call \<Rightarrow> job list \<Rightarrow> nat \<Rightarrow> bool" where
  "claims q (Get t0 t1 t2 fc fu) jobs i = returns_id (fst (get q t0 t1 t2 fc fu jobs)) i"
| "claims q (Get_flag t1 t2 fc fu) jobs i = returns_id (fst (get_flag q t1 t2 fc fu jobs)) i"
| "claims q c jobs i = False"

text \<open>The call is a \<open>recoverProcessTasks\<close> that reaches the store and \<open>j\<close> matches its filter.\<close>

fun recovers :: "call \<Rightarrow> job \<Rightarrow> bool" where
  "recovers (RecoverProcessTasks now None) j = orphaned j"
| "recovers c j = False"

section \<open>Example data\<close>

text \<open>A queue with the default options, and jobs as \<open>add\<close> leaves them.\<close>

definition example_queue :: mqueue where
  "example_queue =
     \<lparr>this_workerId = ''w1'', this_workerHostname = ''host'',
      this_options = \<lparr>blockDuration = 30000, maxRetries = 5, maxJobsInProcess = 1\<rparr>\<rparr>"

definition pending :: "nat \<Rightarrow> int \<Rightarrow> job" where
  "pending i t =
     \<lparr>jid = i, payload = i, createdAt = t, blockedUntil = 0, retries = 0, jdone = False,
      jerror = None, workerId = [], workerHostname = [], process = False\<rparr>"

section \<open>Facts about the calls of the store\<close>

lemma select_one_None: "select_one key P js = None \<longleftrightarrow> (\<forall>j\<in>set js. \<not> P j)"
  by (induction js) (auto split: option.splits)

lemma select_one_Some:
  "select_one key P js = Some i \<Longrightarrow>
     i < length js \<and> P (js ! i) \<and> (\<forall>k\<in>set js. P k \<longrightarrow> key (js ! i) \<le> key k)"
proof (induction js arbitrary: i)
  case Nil
  then show ?case by simp
next
  case (Cons j js)
  show ?case
  proof (cases "select_one key P js")
    case None
    with Cons.prems have "P j" "i = 0" by (auto split: if_splits)
    moreover from None have "\<forall>k\<in>set js. \<not> P k" by (simp add: select_one_None)
    ultimately show ?thesis by auto
  next
    case (Some m)
    from Cons.IH[OF Some] have m: "m < length js" "P (js ! m)"
      "\<forall>k\<in>set js. P k \<longrightarrow> key (js ! m) \<le> key k" by auto
    show ?thesis
    proof (cases "P j \<and> key j \<le> key (js ! m)")
      case True
      with Some Cons.prems have "i = 0" by simp
      with True m show ?thesis by fastforce
    next
      case False
      with Some Cons.prems have "i = Suc m" by auto
      with False m show ?thesis by fastforce
    qed
  qed
qed

text \<open>What a \<open>findOneAndUpdate\<close> that hands over a document has done.\<close>

lemma claimed_Some:
  assumes "claimed (findOneAndUpdate P upd key f jobs) = (Inr (Some v), jobs')"
  shows "f = None \<and> (\<exists>i<length jobs. P (jobs ! i) \<and> (\<forall>k\<in>set jobs. P k \<longrightarrow> key (jobs ! i) \<le> key k)
           \<and> jobs' = jobs[i := upd (jobs ! i)] \<and> v = view (upd (jobs ! i)))"
proof (cases f)
  case (Some a)
  with assms show ?thesis by (cases a) (simp add: findOneAndUpdate_def)
next
  case None
  show ?thesis
  proof (cases "select_one key P jobs")
    case N: None
    with None assms show ?thesis by (simp add: findOneAndUpdate_def)
  next
    case (Some i)
    with None assms have "jobs' = jobs[i := upd (jobs ! i)]" "v = view (upd (jobs ! i))"
      by (auto simp: findOneAndUpdate_def)
    with select_one_Some[OF Some] None show ?thesis by blast
  qed
qed

lemma claimed_None:
  "claimed (findOneAndUpdate P upd key f jobs) = (Inr None, jobs') \<longleftrightarrow>
     f = None \<and> (\<forall>j\<in>set jobs. \<not> P j) \<and> jobs' = jobs"
proof (cases f)
  case (Some a)
  then show ?thesis by (cases a) (simp add: findOneAndUpdate_def)
next
  case None
  show ?thesis
  proof (cases "select_one key P jobs")
    case N: None
    then have "\<forall>j\<in>set jobs. \<not> P j" by (simp add: select_one_None)
    with N None show ?thesis by (auto simp: findOneAndUpdate_def)
  next
    case (Some i)
    from select_one_Some[OF Some] have "\<exists>j\<in>set jobs. P j"
      using nth_mem by blast
    with Some None show ?thesis by (auto simp: findOneAndUpdate_def)
  qed
qed

lemma get_Some:
  assumes "get q t0 t1 t2 fc fu jobs = (Inr (Some v), jobs')"
  shows "\<exists>i<length jobs. claimable q t1 (jobs ! i)
           \<and> (\<forall>k\<in>set jobs. claimable q t1 k \<longrightarrow> createdAt (jobs ! i) \<le> createdAt k)
           \<and> jobs' = jobs[i := claim q t2 (jobs ! i)] \<and> v = view (claim q t2 (jobs ! i))"
proof -
  from assms have "claimed (findOneAndUpdate (claimable q t1) (claim q t2) createdAt fu jobs)
      = (Inr (Some v), jobs')"
    by (simp add: get_def Let_def split: if_splits)
  from claimed_Some[OF this] show ?thesis by blast
qed

lemma get_flag_Some:
  assumes "get_flag q t1 t2 fc fu jobs = (Inr (Some v), jobs')"
  shows "\<exists>i<length jobs. claimable_flag q t1 (jobs ! i)
           \<and> (\<forall>k\<in>set jobs. claimable_flag q t1 k \<longrightarrow> createdAt (jobs ! i) \<le> createdAt k)
           \<and> jobs' = jobs[i := claim_flag q t2 (jobs ! i)] \<and> v = view (claim_flag q t2 (jobs ! i))"
proof -
  from assms have "claimed (findOneAndUpdate (claimable_flag q t1) (claim_flag q t2) createdAt fu jobs)
      = (Inr (Some v), jobs')"
    by (simp add: get_flag_def Let_def split: if_splits)
  from claimed_Some[OF this] show ?thesis by blast
qed

lemma get_None:
  "get q t0 t1 t2 fc fu jobs = (Inr None, jobs') \<longleftrightarrow>
     js_lt (snd (count (in_process q t0) fc jobs)) (maxJobsInProcess (this_options q))
     \<and> fu = None \<and> (\<forall>j\<in>set jobs. \<not> claimable q t1 j) \<and> jobs' = jobs"
  by (auto simp: get_def Let_def claimed_None)

lemma get_flag_None:
  "get_flag q t1 t2 fc fu jobs = (Inr None, jobs') \<longleftrightarrow>
     js_lt (snd (count process fc jobs)) (maxJobsInProcess (this_options q))
     \<and> fu = None \<and> (\<forall>j\<in>set jobs. \<not> claimable_flag q t1 j) \<and> jobs' = jobs"
  by (auto simp: get_flag_def Let_def claimed_None)

lemma get_selects:
  assumes "int (length (filter (in_process q t0) jobs)) < maxJobsInProcess (this_options q)"
    "\<exists>k\<in>set jobs. claimable q t1 k"
  shows "\<exists>i<length jobs. claimable q t1 (jobs ! i)
           \<and> (\<forall>k\<in>set jobs. claimable q t1 k \<longrightarrow> createdAt (jobs ! i) \<le> createdAt k)
           \<and> get q t0 t1 t2 None None jobs =
               (Inr (Some (view (claim q t2 (jobs ! i)))), jobs[i := claim q t2 (jobs ! i)])"
proof -
  from assms(2) have "select_one createdAt (claimable q t1) jobs \<noteq> None"
    by (simp add: select_one_None)
  then obtain i where i: "select_one createdAt (claimable q t1) jobs = Some i" by blast
  from i assms(1) have "get q t0 t1 t2 None None jobs =
      (Inr (Some (view (claim q t2 (jobs ! i)))), jobs[i := claim q t2 (jobs ! i)])"
    by (simp add: get_def Let_def findOneAndUpdate_def)
  with select_one_Some[OF i] show ?thesis by blast
qed

lemma get_flag_selects:
  assumes "int (length (filter process jobs)) < maxJobsInProcess (this_options q)"
    "\<exists>k\<in>set jobs. claimable_flag q t1 k"
  shows "\<exists>i<length jobs. claimable_flag q t1 (jobs ! i)
           \<and> (\<forall>k\<in>set jobs. claimable_flag q t1 k \<longrightarrow> createdAt (jobs ! i) \<le> createdAt k)
           \<and> get_flag q t1 t2 None None jobs =
               (Inr (Some (view (claim_flag q t2 (jobs ! i)))),
                jobs[i := claim_flag q t2 (jobs ! i)])"
proof -
  from assms(2) have "select_one createdAt (claimable_flag q t1) jobs \<noteq> None"
    by (simp add: select_one_None)
  then obtain i where i: "select_one createdAt (claimable_flag q t1) jobs = Some i" by blast
  from i assms(1) have "get_flag q t1 t2 None None jobs =
      (Inr (Some (view (claim_flag q t2 (jobs ! i)))), jobs[i := claim_flag q t2 (jobs ! i)])"
    by (simp add: get_flag_def Let_def findOneAndUpdate_def)
  with select_one_Some[OF i] show ?thesis by blast
qed

section \<open>The claims\<close>

text \<open>
  C1. A \<open>get\<close> that hands over a job has selected exactly one record of the collection, at a
  position \<open>i\<close>: that record satisfied \<open>blockedUntil < now\<close>, \<open>retries \<le> maxRetries\<close> and
  \<open>done = false\<close> (and \<open>process = false\<close> in \<open>src/unnamed/part_000\<close>), no matching record has a
  smaller \<open>createdAt\<close>, the collection afterwards differs from the one before at position \<open>i\<close>
  only, where \<open>blockedUntil\<close> is \<open>now + blockDuration\<close>, \<open>workerId\<close> and \<open>workerHostname\<close> are
  those of the queue, \<open>retries\<close> is one more (and \<open>process\<close> is true), and the value handed over
  is the projection of the record after the update. When both calls of the store complete
  and the count admits the call, \<open>get\<close> does one of two things: if some record matches, it
  updates a matching record with the least \<open>createdAt\<close> in this way and hands over its
  projection; if no record matches, it hands over \<open>null\<close> and the collection is as before.
  Here \<open>now\<close> is the clock reading \<open>t1\<close> in the filter and \<open>t2\<close> in the update.
\<close>

theorem get_claims_oldest:
  "(get q t0 t1 t2 fc fu jobs = (Inr (Some v), jobs') \<longrightarrow>
      (\<exists>i<length jobs.
          blockedUntil (jobs ! i) < t1 \<and> retries (jobs ! i) \<le> maxRetries (this_options q)
        \<and> \<not> jdone (jobs ! i)
        \<and> (\<forall>k\<in>set jobs.
               blockedUntil k < t1 \<and> retries k \<le> maxRetries (this_options q) \<and> \<not> jdone k
               \<longrightarrow> createdAt (jobs ! i) \<le> createdAt k)
        \<and> jobs' = jobs[i := (jobs ! i)
               \<lparr>blockedUntil := t2 + blockDuration (this_options q),
                workerId := this_workerId q,
                workerHostname := this_workerHostname q,
                retries := retries (jobs ! i) + 1\<rparr>]
        \<and> v = view (jobs' ! i)))
   \<and> (get_flag q t1 t2 fc fu jobs = (Inr (Some v), jobs') \<longrightarrow>
      (\<exists>i<length jobs.
          blockedUntil (jobs ! i) < t1 \<and> retries (jobs ! i) \<le> maxRetries (this_options q)
        \<and> \<not> jdone (jobs ! i) \<and> \<not> process (jobs ! i)
        \<and> (\<forall>k\<in>set jobs.
               blockedUntil k < t1 \<and> retries k \<le> maxRetries (this_options q) \<and> \<not> jdone k
               \<and> \<not> process k
               \<longrightarrow> createdAt (jobs ! i) \<le> createdAt k)
        \<and> jobs' = jobs[i := (jobs ! i)
               \<lparr>blockedUntil := t2 + blockDuration (this_options q),
                workerId := this_workerId q,
                workerHostname := this_workerHostname q,
                process := True,
                retries := retries (jobs ! i) + 1\<rparr>]
        \<and> v = view (jobs' ! i)))
   \<and> (fc = None \<and> fu = None
        \<and> int (length (filter (in_process q t0) jobs)) < maxJobsInProcess (this_options q)
        \<and> (\<forall>k\<in>set jobs. \<not> (blockedUntil k < t1 \<and> retries k \<le> maxRetries (this_options q)
                               \<and> \<not> jdone k))
      \<longrightarrow> get q t0 t1 t2 fc fu jobs = (Inr None, jobs))
   \<and> (fc = None \<and> fu = None
        \<and> int (length (filter process jobs)) < maxJobsInProcess (this_options q)
        \<and> (\<forall>k\<in>set jobs. \<not> (blockedUntil k < t1 \<and> retries k \<le> maxRetries (this_options q)
                               \<and> \<not> jdone k \<and> \<not> process k))
      \<longrightarrow> get_flag q t1 t2 fc fu jobs = (Inr None, jobs))
   \<and> (fc = None \<and> fu = None
        \<and> int (length (filter (in_process q t0) jobs)) < maxJobsInProcess (this_options q)
        \<and> (\<exists>k\<in>set jobs. blockedUntil k < t1 \<and> retries k \<le> maxRetries (this_options q)
                             \<and> \<not> jdone k)
      \<longrightarrow> (\<exists>i<length jobs.
          blockedUntil (jobs ! i) < t1 \<and> retries (jobs ! i) \<le> maxRetries (this_options q)
        \<and> \<not> jdone (jobs ! i)
        \<and> (\<forall>k\<in>set jobs.
               blockedUntil k < t1 \<and> retries k \<le> maxRetries (this_options q) \<and> \<not> jdone k
               \<longrightarrow> createdAt (jobs ! i) \<le> createdAt k)
        \<and> get q t0 t1 t2 fc fu jobs =
            (Inr (Some (view ((jobs ! i)
               \<lparr>blockedUntil := t2 + blockDuration (this_options q),
                workerId := this_workerId q,
                workerHostname := this_workerHostname q,
                retries := retries (jobs ! i) + 1\<rparr>))),
             jobs[i := (jobs ! i)
               \<lparr>blockedUntil := t2 + blockDuration (this_options q),
                workerId := this_workerId q,
                workerHostname := this_workerHostname q,
                retries := retries (jobs ! i) + 1\<rparr>])))
   \<and> (fc = None \<and> fu = None
        \<and> int (length (filter process jobs)) < maxJobsInProcess (this_options q)
        \<and> (\<exists>k\<in>set jobs. blockedUntil k < t1 \<and> retries k \<le> maxRetries (this_options q)
                             \<and> \<not> jdone k \<and> \<not> process k)
      \<longrightarrow> (\<exists>i<length jobs.
          blockedUntil (jobs ! i) < t1 \<and> retries (jobs ! i) \<le> maxRetries (this_options q)
        \<and> \<not> jdone (jobs ! i) \<and> \<not> process (jobs ! i)
        \<and> (\<forall>k\<in>set jobs.
               blockedUntil k < t1 \<and> retries k \<le> maxRetries (this_options q) \<and> \<not> jdone k
               \<and> \<not> process k
               \<longrightarrow> createdAt (jobs ! i) \<le> createdAt k)
        \<and> get_flag q t1 t2 fc fu jobs =
            (Inr (Some (view ((jobs ! i)
               \<lparr>blockedUntil := t2 + blockDuration (this_options q),
                workerId := this_workerId q,
                workerHostname := this_workerHostname q,
                process := True,
                retries := retries (jobs ! i) + 1\<rparr>))),
             jobs[i := (jobs ! i)
               \<lparr>blockedUntil := t2 + blockDuration (this_options q),
                workerId := this_workerId q,
                workerHostname := this_workerHostname q,
                process := True,
                retries := retries (jobs ! i) + 1\<rparr>])))"
proof (intro conjI impI)
  assume "get q t0 t1 t2 fc fu jobs = (Inr (Some v), jobs')"
  from get_Some[OF this] obtain i where i: "i < length jobs" "claimable q t1 (jobs ! i)"
    "\<forall>k\<in>set jobs. claimable q t1 k \<longrightarrow> createdAt (jobs ! i) \<le> createdAt k"
    "jobs' = jobs[i := claim q t2 (jobs ! i)]" "v = view (claim q t2 (jobs ! i))"
    by blast
  from i(1,4,5) have "v = view (jobs' ! i)" by simp
  with i(1-4) show "\<exists>i<length jobs.
          blockedUntil (jobs ! i) < t1 \<and> retries (jobs ! i) \<le> maxRetries (this_options q)
        \<and> \<not> jdone (jobs ! i)
        \<and> (\<forall>k\<in>set jobs.
               blockedUntil k < t1 \<and> retries k \<le> maxRetries (this_options q) \<and> \<not> jdone k
               \<longrightarrow> createdAt (jobs ! i) \<le> createdAt k)
        \<and> jobs' = jobs[i := (jobs ! i)
               \<lparr>blockedUntil := t2 + blockDuration (this_options q),
                workerId := this_workerId q,
                workerHostname := this_workerHostname q,
                retries := retries (jobs ! i) + 1\<rparr>]
        \<and> v = view (jobs' ! i)"
    unfolding claimable_def claim_def by blast
next
  assume "get_flag q t1 t2 fc fu jobs = (Inr (Some v), jobs')"
  from get_flag_Some[OF this] obtain i where i: "i < length jobs" "claimable_flag q t1 (jobs ! i)"
    "\<forall>k\<in>set jobs. claimable_flag q t1 k \<longrightarrow> createdAt (jobs ! i) \<le> createdAt k"
    "jobs' = jobs[i := claim_flag q t2 (jobs ! i)]" "v = view (claim_flag q t2 (jobs ! i))"
    by blast
  from i(1,4,5) have "v = view (jobs' ! i)" by simp
  with i(1-4) show "\<exists>i<length jobs.
          blockedUntil (jobs ! i) < t1 \<and> retries (jobs ! i) \<le> maxRetries (this_options q)
        \<and> \<not> jdone (jobs ! i) \<and> \<not> process (jobs ! i)
        \<and> (\<forall>k\<in>set jobs.
               blockedUntil k < t1 \<and> retries k \<le> maxRetries (this_options q) \<and> \<not> jdone k
               \<and> \<not> process k
               \<longrightarrow> createdAt (jobs ! i) \<le> createdAt k)
        \<and> jobs' = jobs[i := (jobs ! i)
               \<lparr>blockedUntil := t2 + blockDuration (this_options q),
                workerId := this_workerId q,
                workerHostname := this_workerHostname q,
                process := True,
                retries := retries (jobs ! i) + 1\<rparr>]
        \<and> v = view (jobs' ! i)"
    unfolding claimable_flag_def claim_flag_def by blast
next
  assume "fc = None \<and> fu = None
        \<and> int (length (filter (in_process q t0) jobs)) < maxJobsInProcess (this_options q)
        \<and> (\<forall>k\<in>set jobs. \<not> (blockedUntil k < t1 \<and> retries k \<le> maxRetries (this_options q)
                               \<and> \<not> jdone k))"
  then show "get q t0 t1 t2 fc fu jobs = (Inr None, jobs)"
    by (simp add: get_None claimable_def)
next
  assume "fc = None \<and> fu = None
        \<and> int (length (filter process jobs)) < maxJobsInProcess (this_options q)
        \<and> (\<forall>k\<in>set jobs. \<not> (blockedUntil k < t1 \<and> retries k \<le> maxRetries (this_options q)
                               \<and> \<not> jdone k \<and> \<not> process k))"
  then show "get_flag q t1 t2 fc fu jobs = (Inr None, jobs)"
    by (simp add: get_flag_None claimable_flag_def)
next
  assume h: "fc = None \<and> fu = None
        \<and> int (length (filter (in_process q t0) jobs)) < maxJobsInProcess (this_options q)
        \<and> (\<exists>k\<in>set jobs. blockedUntil k < t1 \<and> retries k \<le> maxRetries (this_options q)
                             \<and> \<not> jdone k)"
  then have "\<exists>k\<in>set jobs. claimable q t1 k" by (simp add: claimable_def)
  from get_selects[OF _ this, of t0 t2] h
  show "\<exists>i<length jobs.
          blockedUntil (jobs ! i) < t1 \<and> retries (jobs ! i) \<le> maxRetries (this_options q)
        \<and> \<not> jdone (jobs ! i)
        \<and> (\<forall>k\<in>set jobs.
               blockedUntil k < t1 \<and> retries k \<le> maxRetries (this_options q) \<and> \<not> jdone k
               \<longrightarrow> createdAt (jobs ! i) \<le> createdAt k)
        \<and> get q t0 t1 t2 fc fu jobs =
            (Inr (Some (view ((jobs ! i)
               \<lparr>blockedUntil := t2 + blockDuration (this_options q),
                workerId := this_workerId q,
                workerHostname := this_workerHostname q,
                retries := retries (jobs ! i) + 1\<rparr>))),
             jobs[i := (jobs ! i)
               \<lparr>blockedUntil := t2 + blockDuration (this_options q),
                workerId := this_workerId q,
                workerHostname := this_workerHostname q,
                retries := retries (jobs ! i) + 1\<rparr>])"
    unfolding claimable_def claim_def by simp
next
  assume h: "fc = None \<and> fu = None
        \<and> int (length (filter process jobs)) < maxJobsInProcess (this_options q)
        \<and> (\<exists>k\<in>set jobs. blockedUntil k < t1 \<and> retries k \<le> maxRetries (this_options q)
                             \<and> \<not> jdone k \<and> \<not> process k)"
  then have "\<exists>k\<in>set jobs. claimable_flag q t1 k" by (simp add: claimable_flag_def)
  from get_flag_selects[OF _ this, of t2] h
  show "\<exists>i<length jobs.
          blockedUntil (jobs ! i) < t1 \<and> retries (jobs ! i) \<le> maxRetries (this_options q)
        \<and> \<not> jdone (jobs ! i) \<and> \<not> process (jobs ! i)
        \<and> (\<forall>k\<in>set jobs.
               blockedUntil k < t1 \<and> retries k \<le> maxRetries (this_options q) \<and> \<not> jdone k
               \<and> \<not> process k
               \<longrightarrow> createdAt (jobs ! i) \<le> createdAt k)
        \<and> get_flag q t1 t2 fc fu jobs =
            (Inr (Some (view ((jobs ! i)
               \<lparr>blockedUntil := t2 + blockDuration (this_options q),
                workerId := this_workerId q,
                workerHostname := this_workerHostname q,
                process := True,
                retries := retries (jobs ! i) + 1\<rparr>))),
             jobs[i := (jobs ! i)
               \<lparr>blockedUntil := t2 + blockDuration (this_options q),
                workerId := this_workerId q,
                workerHostname := this_workerHostname q,
                process := True,
                retries := retries (jobs ! i) + 1\<rparr>])"
    unfolding claimable_flag_def claim_flag_def by simp
qed

theorem get_claims_oldest_witness:
  "get example_queue 5 5 5 None None [pending 1 3, pending 2 1] =
     (Inr (Some \<lparr>view_id = 2, view_payload = 2, view_blockedUntil = 30005, view_done = False\<rparr>),
      [pending 1 3, (pending 2 1)\<lparr>blockedUntil := 30005, workerId := ''w1'',
                       workerHostname := ''host'', retries := 1\<rparr>])
   \<and> get_flag example_queue 5 5 None None [pending 1 3, pending 2 1] =
     (Inr (Some \<lparr>view_id = 2, view_payload = 2, view_blockedUntil = 30005, view_done = False\<rparr>),
      [pending 1 3, (pending 2 1)\<lparr>blockedUntil := 30005, workerId := ''w1'',
                       workerHostname := ''host'', process := True, retries := 1\<rparr>])
   \<and> get example_queue 5 5 5 None None [(pending 1 3)\<lparr>jdone := True\<rparr>] =
     (Inr None, [(pending 1 3)\<lparr>jdone := True\<rparr>])
   \<and> get_flag example_queue 5 5 None None [(pending 1 3)\<lparr>jdone := True\<rparr>] =
     (Inr None, [(pending 1 3)\<lparr>jdone := True\<rparr>])
   \<and> (\<exists>i<length [pending 1 3, pending 2 1].
          blockedUntil ([pending 1 3, pending 2 1] ! i) < 5
        \<and> (\<forall>k\<in>set [pending 1 3, pending 2 1].
               blockedUntil k < 5 \<and> retries k \<le> maxRetries (this_options example_queue)
               \<and> \<not> jdone k
               \<longrightarrow> createdAt ([pending 1 3, pending 2 1] ! i) \<le> createdAt k)
        \<and> retries ([pending 1 3, pending 2 1] ! i) + 1 = 1)
   \<and> int (length (filter (in_process example_queue 5) [pending 1 3, pending 2 1]))
        < maxJobsInProcess (this_options example_queue)
   \<and> int (length (filter process [pending 1 3, pending 2 1]))
        < maxJobsInProcess (this_options example_queue)
   \<and> (\<exists>k\<in>set [pending 1 3, pending 2 1].
          blockedUntil k < 5 \<and> retries k \<le> maxRetries (this_options example_queue)
          \<and> \<not> jdone k \<and> \<not> process k)
   \<and> (\<exists>i<length [pending 1 3, pending 2 1].
          get example_queue 5 5 5 None None [pending 1 3, pending 2 1] =
            (Inr (Some (view (([pending 1 3, pending 2 1] ! i)
               \<lparr>blockedUntil := 5 + blockDuration (this_options example_queue),
                workerId := this_workerId example_queue,
                workerHostname := this_workerHostname example_queue,
                retries := retries ([pending 1 3, pending 2 1] ! i) + 1\<rparr>))),
             [pending 1 3, pending 2 1][i := (([pending 1 3, pending 2 1] ! i)
               \<lparr>blockedUntil := 5 + blockDuration (this_options example_queue),
                workerId := this_workerId example_queue,
                workerHostname := this_workerHostname example_queue,
                retries := retries ([pending 1 3, pending 2 1] ! i) + 1\<rparr>)]))
   \<and> (\<exists>i<length [pending 1 3, pending 2 1].
          get_flag example_queue 5 5 None None [pending 1 3, pending 2 1] =
            (Inr (Some (view (([pending 1 3, pending 2 1] ! i)
               \<lparr>blockedUntil := 5 + blockDuration (this_options example_queue),
                workerId := this_workerId example_queue,
                workerHostname := this_workerHostname example_queue,
                process := True,
                retries := retries ([pending 1 3, pending 2 1] ! i) + 1\<rparr>))),
             [pending 1 3, pending 2 1][i := (([pending 1 3, pending 2 1] ! i)
               \<lparr>blockedUntil := 5 + blockDuration (this_options example_queue),
                workerId := this_workerId example_queue,
                workerHostname := this_workerHostname example_queue,
                process := True,
                retries := retries ([pending 1 3, pending 2 1] ! i) + 1\<rparr>)]))"
proof -
  let ?js = "[pending 1 3, pending 2 1]"
  let ?v = "\<lparr>view_id = 2, view_payload = 2, view_blockedUntil = 30005, view_done = False\<rparr>"
  let ?js' = "[pending 1 3, (pending 2 1)\<lparr>blockedUntil := 30005, workerId := ''w1'',
                       workerHostname := ''host'', retries := 1\<rparr>]"
  have a: "get example_queue 5 5 5 None None ?js = (Inr (Some ?v), ?js')"
    by (simp add: example_queue_def pending_def get_def Let_def findOneAndUpdate_def
          claimable_def claim_def in_process_def view_def)
  have b: "get_flag example_queue 5 5 None None ?js =
     (Inr (Some ?v),
      [pending 1 3, (pending 2 1)\<lparr>blockedUntil := 30005, workerId := ''w1'',
                       workerHostname := ''host'', process := True, retries := 1\<rparr>])"
    by (simp add: example_queue_def pending_def get_flag_def Let_def findOneAndUpdate_def
          claimable_flag_def claim_flag_def view_def)
  have c: "get example_queue 5 5 5 None None [(pending 1 3)\<lparr>jdone := True\<rparr>] =
     (Inr None, [(pending 1 3)\<lparr>jdone := True\<rparr>])"
    using get_claims_oldest[of example_queue 5 5 5 None None "[(pending 1 3)\<lparr>jdone := True\<rparr>]" ?v ?js']
    by (simp add: example_queue_def pending_def in_process_def)
  have d: "get_flag example_queue 5 5 None None [(pending 1 3)\<lparr>jdone := True\<rparr>] =
     (Inr None, [(pending 1 3)\<lparr>jdone := True\<rparr>])"
    using get_claims_oldest[of example_queue 5 5 5 None None "[(pending 1 3)\<lparr>jdone := True\<rparr>]" ?v ?js']
    by (simp add: example_queue_def pending_def in_process_def)
  from get_claims_oldest[of example_queue 5 5 5 None None ?js ?v ?js'] a
  obtain i where i: "i < length ?js" "blockedUntil (?js ! i) < 5"
      "\<forall>k\<in>set ?js.
               blockedUntil k < 5 \<and> retries k \<le> maxRetries (this_options example_queue)
               \<and> \<not> jdone k
               \<longrightarrow> createdAt (?js ! i) \<le> createdAt k"
      "?js' = ?js[i := (?js ! i)
               \<lparr>blockedUntil := 5 + blockDuration (this_options example_queue),
                workerId := this_workerId example_queue,
                workerHostname := this_workerHostname example_queue,
                retries := retries (?js ! i) + 1\<rparr>]"
    by blast
  from i(1) have "i = 0 \<or> i = 1" by auto
  with i(4) have "retries (?js ! i) + 1 = 1"
    by (auto simp: pending_def)
  with i(1-3) have e: "\<exists>i<length ?js.
          blockedUntil (?js ! i) < 5
        \<and> (\<forall>k\<in>set ?js.
               blockedUntil k < 5 \<and> retries k \<le> maxRetries (this_options example_queue)
               \<and> \<not> jdone k
               \<longrightarrow> createdAt (?js ! i) \<le> createdAt k)
        \<and> retries (?js ! i) + 1 = 1"
    by blast
  have adm: "int (length (filter (in_process example_queue 5) ?js))
        < maxJobsInProcess (this_options example_queue)"
    "int (length (filter process ?js)) < maxJobsInProcess (this_options example_queue)"
    by (simp_all add: example_queue_def pending_def in_process_def)
  have m: "\<exists>k\<in>set ?js.
          blockedUntil k < 5 \<and> retries k \<le> maxRetries (this_options example_queue)
          \<and> \<not> jdone k \<and> \<not> process k"
    by (simp add: example_queue_def pending_def)
  then have m': "\<exists>k\<in>set ?js.
          blockedUntil k < 5 \<and> retries k \<le> maxRetries (this_options example_queue)
          \<and> \<not> jdone k"
    by blast
  from get_claims_oldest[of example_queue 5 5 5 None None ?js ?v ?js'] adm(1) m'
  have f: "\<exists>i<length ?js.
          get example_queue 5 5 5 None None ?js =
            (Inr (Some (view ((?js ! i)
               \<lparr>blockedUntil := 5 + blockDuration (this_options example_queue),
                workerId := this_workerId example_queue,
                workerHostname := this_workerHostname example_queue,
                retries := retries (?js ! i) + 1\<rparr>))),
             ?js[i := ((?js ! i)
               \<lparr>blockedUntil := 5 + blockDuration (this_options example_queue),
                workerId := this_workerId example_queue,
                workerHostname := this_workerHostname example_queue,
                retries := retries (?js ! i) + 1\<rparr>)])"
    by blast
  from get_claims_oldest[of example_queue 5 5 5 None None ?js ?v ?js'] adm(2) m
  have g: "\<exists>i<length ?js.
          get_flag example_queue 5 5 None None ?js =
            (Inr (Some (view ((?js ! i)
               \<lparr>blockedUntil := 5 + blockDuration (this_options example_queue),
                workerId := this_workerId example_queue,
                workerHostname := this_workerHostname example_queue,
                process := True,
                retries := retries (?js ! i) + 1\<rparr>))),
             ?js[i := ((?js ! i)
               \<lparr>blockedUntil := 5 + blockDuration (this_options example_queue),
                workerId := this_workerId example_queue,
                workerHostname := this_workerHostname example_queue,
                process := True,
                retries := retries (?js ! i) + 1\<rparr>)])"
    by blast
  from a b c d e adm m f g show ?thesis by blast
qed

text \<open>
  C10. Every job that \<open>get\<close> hands over has \<open>done = false\<close>, and its \<open>blockedUntil\<close> is the clock
  reading of the claim plus \<open>blockDuration\<close>: strictly after that reading whenever
  \<open>blockDuration > 0\<close>. This holds for \<open>get\<close> of both files.
\<close>

theorem get_hands_over_live_lease:
  "(get q t0 t1 t2 fc fu jobs = (Inr (Some v), jobs') \<longrightarrow>
      \<not> view_done v \<and> view_blockedUntil v = t2 + blockDuration (this_options q)
      \<and> (0 < blockDuration (this_options q) \<longrightarrow> t2 < view_blockedUntil v))
   \<and> (get_flag q t1 t2 fc fu jobs = (Inr (Some v), jobs') \<longrightarrow>
      \<not> view_done v \<and> view_blockedUntil v = t2 + blockDuration (this_options q)
      \<and> (0 < blockDuration (this_options q) \<longrightarrow> t2 < view_blockedUntil v))"
proof (intro conjI impI)
  assume a: "get q t0 t1 t2 fc fu jobs = (Inr (Some v), jobs')"
  from get_Some[OF a] obtain i where i: "claimable q t1 (jobs ! i)"
    "v = view (claim q t2 (jobs ! i))" by blast
  from i show "\<not> view_done v" by (simp add: view_def claim_def claimable_def)
  from i show "view_blockedUntil v = t2 + blockDuration (this_options q)"
    by (simp add: view_def claim_def)
  then show "t2 < view_blockedUntil v" if "0 < blockDuration (this_options q)"
    using that by simp
next
  assume a: "get_flag q t1 t2 fc fu jobs = (Inr (Some v), jobs')"
  from get_flag_Some[OF a] obtain i where i: "claimable_flag q t1 (jobs ! i)"
    "v = view (claim_flag q t2 (jobs ! i))" by blast
  from i show "\<not> view_done v" by (simp add: view_def claim_flag_def claimable_flag_def)
  from i show "view_blockedUntil v = t2 + blockDuration (this_options q)"
    by (simp add: view_def claim_flag_def)
  then show "t2 < view_blockedUntil v" if "0 < blockDuration (this_options q)"
    using that by simp
qed

theorem get_hands_over_live_lease_witness:
  "get example_queue 5 5 5 None None [pending 1 3] =
     (Inr (Some \<lparr>view_id = 1, view_payload = 1, view_blockedUntil = 30005, view_done = False\<rparr>),
      [(pending 1 3)\<lparr>blockedUntil := 30005, workerId := ''w1'',
                       workerHostname := ''host'', retries := 1\<rparr>])
   \<and> get_flag example_queue 5 5 None None [pending 1 3] =
     (Inr (Some \<lparr>view_id = 1, view_payload = 1, view_blockedUntil = 30005, view_done = False\<rparr>),
      [(pending 1 3)\<lparr>blockedUntil := 30005, workerId := ''w1'',
                       workerHostname := ''host'', process := True, retries := 1\<rparr>])
   \<and> 0 < blockDuration (this_options example_queue)
   \<and> \<not> view_done \<lparr>view_id = 1, view_payload = 1, view_blockedUntil = 30005, view_done = False\<rparr>
   \<and> 5 < view_blockedUntil
            \<lparr>view_id = 1, view_payload = 1, view_blockedUntil = 30005, view_done = False\<rparr>"
proof -
  let ?v = "\<lparr>view_id = 1, view_payload = 1, view_blockedUntil = 30005, view_done = False\<rparr>"
  let ?js' = "[(pending 1 3)\<lparr>blockedUntil := 30005, workerId := ''w1'',
                       workerHostname := ''host'', retries := 1\<rparr>]"
  have a: "get example_queue 5 5 5 None None [pending 1 3] = (Inr (Some ?v), ?js')"
    by (simp add: example_queue_def pending_def get_def Let_def findOneAndUpdate_def
          claimable_def claim_def in_process_def view_def)
  have b: "get_flag example_queue 5 5 None None [pending 1 3] =
     (Inr (Some ?v),
      [(pending 1 3)\<lparr>blockedUntil := 30005, workerId := ''w1'',
                       workerHostname := ''host'', process := True, retries := 1\<rparr>])"
    by (simp add: example_queue_def pending_def get_flag_def Let_def findOneAndUpdate_def
          claimable_flag_def claim_flag_def view_def)
  have c: "0 < blockDuration (this_options example_queue)"
    by (simp add: example_queue_def)
  from get_hands_over_live_lease[of example_queue 5 5 5 None None "[pending 1 3]" ?v ?js'] a c
  have "\<not> view_done ?v" "5 < view_blockedUntil ?v" by blast+
  with a b c show ?thesis by blast
qed

text \<open>
  C2. When the count completes, \<open>get\<close> fails with the concurrency-limit error
  exactly when the count is at least \<open>maxJobsInProcess\<close>, and then the collection is as it
  was. In \<open>src/lib/mongoose-queue.js\<close> the count is of the records with
  \<open>blockedUntil > now\<close>, \<open>retries \<le> maxRetries\<close> and \<open>done = false\<close>; in \<open>src/unnamed/part_000\<close> it
  is of the records with \<open>process = true\<close>.
\<close>

theorem get_admission:
  "(fc = None \<longrightarrow>
      ((\<exists>m. fst (get q t0 t1 t2 fc fu jobs) = Inl (ConcurrencyLimitError m)) \<longleftrightarrow>
         maxJobsInProcess (this_options q) \<le>
           int (length (filter (\<lambda>j. t0 < blockedUntil j \<and> retries j \<le> maxRetries (this_options q)
                                      \<and> \<not> jdone j) jobs)))
      \<and> (maxJobsInProcess (this_options q) \<le>
           int (length (filter (\<lambda>j. t0 < blockedUntil j \<and> retries j \<le> maxRetries (this_options q)
                                      \<and> \<not> jdone j) jobs))
         \<longrightarrow> get q t0 t1 t2 fc fu jobs =
               (Inl (ConcurrencyLimitError (maxJobsInProcess (this_options q))), jobs)))
   \<and> (fc = None \<longrightarrow>
      ((\<exists>m. fst (get_flag q t1 t2 fc fu jobs) = Inl (ConcurrencyLimitError m)) \<longleftrightarrow>
         maxJobsInProcess (this_options q) \<le> int (length (filter process jobs)))
      \<and> (maxJobsInProcess (this_options q) \<le> int (length (filter process jobs))
         \<longrightarrow> get_flag q t1 t2 fc fu jobs =
               (Inl (ConcurrencyLimitError (maxJobsInProcess (this_options q))), jobs)))"
proof -
  have no_limit: "fst (claimed r) \<noteq> Inl (ConcurrencyLimitError m)" for r m
    by (cases r rule: claimed.cases) simp_all
  have ip: "in_process q t0 = (\<lambda>j. t0 < blockedUntil j \<and> retries j \<le> maxRetries (this_options q)
                                      \<and> \<not> jdone j)"
    by (rule ext) (simp add: in_process_def)
  show ?thesis
    by (auto simp: get_def get_flag_def Let_def no_limit ip)
qed

theorem get_admission_witness:
  "get example_queue 50 50 50 None None
       [(pending 1 3)\<lparr>blockedUntil := 100, retries := 1\<rparr>, pending 2 4] =
     (Inl (ConcurrencyLimitError 1), [(pending 1 3)\<lparr>blockedUntil := 100, retries := 1\<rparr>, pending 2 4])
   \<and> get_flag example_queue 50 50 None None
       [(pending 1 3)\<lparr>blockedUntil := 100, retries := 1, process := True\<rparr>, pending 2 4] =
     (Inl (ConcurrencyLimitError 1),
      [(pending 1 3)\<lparr>blockedUntil := 100, retries := 1, process := True\<rparr>, pending 2 4])"
  using get_admission[of None example_queue 50 50 50 None
          "[(pending 1 3)\<lparr>blockedUntil := 100, retries := 1\<rparr>, pending 2 4]"]
        get_admission[of None example_queue 50 50 50 None
          "[(pending 1 3)\<lparr>blockedUntil := 100, retries := 1, process := True\<rparr>, pending 2 4]"]
  by (simp add: example_queue_def pending_def)

text \<open>
  The count is not of all records with \<open>blockedUntil > now\<close> and \<open>done = false\<close>: a record with
  an unexpired lease and \<open>retries > maxRetries\<close> is left out. With \<open>maxJobsInProcess = 1\<close> and
  one such record, \<open>get\<close> claims the next job.
\<close>

theorem get_admission_counterexample:
  "maxJobsInProcess (this_options example_queue) \<le>
     int (length (filter (\<lambda>j. 50 < blockedUntil j \<and> \<not> jdone j)
            [(pending 1 3)\<lparr>blockedUntil := 100, retries := 6\<rparr>, pending 2 4]))
   \<and> get example_queue 50 50 50 None None
        [(pending 1 3)\<lparr>blockedUntil := 100, retries := 6\<rparr>, pending 2 4] =
     (Inr (Some \<lparr>view_id = 2, view_payload = 2, view_blockedUntil = 30050, view_done = False\<rparr>),
      [(pending 1 3)\<lparr>blockedUntil := 100, retries := 6\<rparr>,
       (pending 2 4)\<lparr>blockedUntil := 30050, workerId := ''w1'', workerHostname := ''host'',
                      retries := 1\<rparr>])"
  by (simp add: example_queue_def pending_def get_def Let_def findOneAndUpdate_def
          claimable_def claim_def in_process_def view_def)

text \<open>
  C3. The callback that \<open>get\<close> gives to \<open>count\<close> never reads \<open>err\<close>. When the count fails and the
  callback's second argument is \<open>undefined\<close>, \<open>get\<close> reports the concurrency-limit error; when it
  is \<open>null\<close>, \<open>get\<close> goes on to claim a job. In neither case does the caller see the error of
  the store.
\<close>

theorem get_swallows_count_error:
  "get example_queue 5 5 5 (Some (Fault ''connection lost'' Undefined)) None [pending 1 3] =
     (Inl (ConcurrencyLimitError 1), [pending 1 3])
   \<and> get_flag example_queue 5 5 (Some (Fault ''connection lost'' Undefined)) None [pending 1 3] =
     (Inl (ConcurrencyLimitError 1), [pending 1 3])
   \<and> fst (get example_queue 5 5 5 (Some (Fault ''connection lost'' Null)) None [pending 1 3]) =
     Inr (Some \<lparr>view_id = 1, view_payload = 1, view_blockedUntil = 30005, view_done = False\<rparr>)
   \<and> fst (get_flag example_queue 5 5 (Some (Fault ''connection lost'' Null)) None [pending 1 3]) =
     Inr (Some \<lparr>view_id = 1, view_payload = 1, view_blockedUntil = 30005, view_done = False\<rparr>)"
  by (simp add: example_queue_def pending_def get_def get_flag_def Let_def findOneAndUpdate_def
          claimable_def claim_def claimable_flag_def claim_flag_def in_process_def view_def)

text \<open>
  C9. When the count completes, \<open>availableProcesses\<close> hands over the number of
  records with \<open>blockedUntil < now\<close>, \<open>retries \<le> maxRetries\<close> and \<open>done = false\<close> when that number
  is not zero, and \<open>null\<close> when it is zero.
\<close>

theorem availableProcesses_counts:
  "availableProcesses q now None jobs =
     (if length (filter (\<lambda>j. blockedUntil j < now \<and> retries j \<le> maxRetries (this_options q)
                              \<and> \<not> jdone j) jobs) = 0
      then Inr None
      else Inr (Some (Num (int (length
             (filter (\<lambda>j. blockedUntil j < now \<and> retries j \<le> maxRetries (this_options q)
                           \<and> \<not> jdone j) jobs))))))"
proof -
  have "claimable q now = (\<lambda>j. blockedUntil j < now \<and> retries j \<le> maxRetries (this_options q)
                              \<and> \<not> jdone j)"
    by (rule ext) (simp add: claimable_def)
  then show ?thesis by (simp add: availableProcesses_def)
qed

text \<open>With no claimable job the value handed over is \<open>null\<close>, not the number 0.\<close>

theorem availableProcesses_counterexample:
  "length (filter (\<lambda>j. blockedUntil j < 5 \<and> retries j \<le> maxRetries (this_options example_queue)
                              \<and> \<not> jdone j) [(pending 1 3)\<lparr>jdone := True\<rparr>]) = 0
   \<and> availableProcesses example_queue 5 None [(pending 1 3)\<lparr>jdone := True\<rparr>] = Inr None
   \<and> availableProcesses example_queue 5 None [(pending 1 3)\<lparr>jdone := True\<rparr>] \<noteq> Inr (Some (Num 0))"
  by (simp add: availableProcesses_def claimable_def pending_def example_queue_def)

text \<open>
  C6. After a \<open>clean\<close> that completes without error no record with \<open>done = true\<close> is left, in
  both files; with \<open>clean\<close> of \<open>src/lib/mongoose-queue.js\<close> the records with \<open>done = false\<close> are
  all still there, as they were and in their order, among them every record with
  \<open>retries > maxRetries\<close>.
\<close>

theorem clean_removes_done:
  "(fst (clean q f jobs) = None \<longrightarrow>
      (\<forall>j\<in>set (snd (clean q f jobs)). \<not> jdone j)
      \<and> filter (\<lambda>j. \<not> jdone j) (snd (clean q f jobs)) = filter (\<lambda>j. \<not> jdone j) jobs
      \<and> (\<forall>j\<in>set jobs. maxRetries (this_options q) < retries j \<and> \<not> jdone j
            \<longrightarrow> j \<in> set (snd (clean q f jobs))))
   \<and> (fst (clean_flag q f jobs) = None \<longrightarrow>
      (\<forall>j\<in>set (snd (clean_flag q f jobs)). \<not> jdone j))"
proof (cases f)
  case None
  then show ?thesis by (auto simp: clean_def clean_flag_def remove_matching_def)
next
  case (Some a)
  then show ?thesis by (cases a) (simp add: clean_def clean_flag_def remove_matching_def)
qed

theorem clean_removes_done_witness:
  "fst (clean example_queue None
          [(pending 1 3)\<lparr>jdone := True\<rparr>, (pending 2 4)\<lparr>retries := 6\<rparr>, pending 3 5]) = None
   \<and> snd (clean example_queue None
          [(pending 1 3)\<lparr>jdone := True\<rparr>, (pending 2 4)\<lparr>retries := 6\<rparr>, pending 3 5]) =
       [(pending 2 4)\<lparr>retries := 6\<rparr>, pending 3 5]
   \<and> fst (clean_flag example_queue None
          [(pending 1 3)\<lparr>jdone := True\<rparr>, (pending 2 4)\<lparr>retries := 6\<rparr>, pending 3 5]) = None
   \<and> snd (clean_flag example_queue None
          [(pending 1 3)\<lparr>jdone := True\<rparr>, (pending 2 4)\<lparr>retries := 6\<rparr>, pending 3 5]) =
       [pending 3 5]
   \<and> maxRetries (this_options example_queue) < retries ((pending 2 4)\<lparr>retries := 6\<rparr>)
   \<and> (pending 2 4)\<lparr>retries := 6\<rparr> \<in> set (snd (clean example_queue None
          [(pending 1 3)\<lparr>jdone := True\<rparr>, (pending 2 4)\<lparr>retries := 6\<rparr>, pending 3 5]))"
proof -
  let ?js = "[(pending 1 3)\<lparr>jdone := True\<rparr>, (pending 2 4)\<lparr>retries := 6\<rparr>, pending 3 5]"
  have a: "fst (clean example_queue None ?js) = None"
    by (simp add: clean_def remove_matching_def)
  have b: "snd (clean example_queue None ?js) = [(pending 2 4)\<lparr>retries := 6\<rparr>, pending 3 5]"
    by (simp add: clean_def remove_matching_def pending_def)
  have c: "fst (clean_flag example_queue None ?js) = None"
    by (simp add: clean_flag_def remove_matching_def)
  have d: "snd (clean_flag example_queue None ?js) = [pending 3 5]"
    by (simp add: clean_flag_def remove_matching_def pending_def example_queue_def)
  have e: "maxRetries (this_options example_queue) < retries ((pending 2 4)\<lparr>retries := 6\<rparr>)"
    "\<not> jdone ((pending 2 4)\<lparr>retries := 6\<rparr>)" "(pending 2 4)\<lparr>retries := 6\<rparr> \<in> set ?js"
    by (simp_all add: example_queue_def pending_def)
  from clean_removes_done[of example_queue None ?js] a e
  have "(pending 2 4)\<lparr>retries := 6\<rparr> \<in> set (snd (clean example_queue None ?js))"
    by blast
  with a b c d e(1) show ?thesis by blast
qed

text \<open>
  C8. When the update completes, \<open>recoverProcessTasks\<close> changes exactly the records
  with \<open>done = false\<close> and \<open>process = true\<close>: on each it sets \<open>process = false\<close>,
  \<open>blockedUntil = now + blockDuration\<close>, \<open>workerId\<close> and \<open>workerHostname\<close> of the queue, and adds 1
  to \<open>retries\<close>; every other record is as it was. It hands over the raw response of the
  write, which counts the records matched and modified.
\<close>

theorem recoverProcessTasks_updates:
  "snd (recoverProcessTasks q now None jobs) =
     map (\<lambda>j. if \<not> jdone j \<and> process j
               then j\<lparr>blockedUntil := now + blockDuration (this_options q),
                      workerId := this_workerId q,
                      workerHostname := this_workerHostname q,
                      process := False,
                      retries := retries j + 1\<rparr>
               else j) jobs
   \<and> fst (recoverProcessTasks q now None jobs) =
     Inr (Some \<lparr>raw_ok = 1,
                raw_nModified = int (length (filter (\<lambda>j. \<not> jdone j \<and> process j) jobs)),
                raw_n = int (length (filter (\<lambda>j. \<not> jdone j \<and> process j) jobs))\<rparr>)"
proof -
  have o: "orphaned = (\<lambda>j. \<not> jdone j \<and> process j)"
    by (rule ext) (simp add: orphaned_def)
  show ?thesis
    by (simp add: recoverProcessTasks_def update_multi_def recover_def o)
qed

text \<open>
  The value handed over is not the list of the updated jobs: with one orphaned record it is
  \<open>{ok: 1, nModified: 1, n: 1}\<close>.
\<close>

theorem recoverProcessTasks_counterexample:
  "recoverProcessTasks example_queue 1000 None
     [(pending 1 3)\<lparr>blockedUntil := 500, retries := 1, process := True\<rparr>, pending 2 4] =
   (Inr (Some \<lparr>raw_ok = 1, raw_nModified = 1, raw_n = 1\<rparr>),
    [(pending 1 3)\<lparr>blockedUntil := 31000, workerId := ''w1'', workerHostname := ''host'',
                    retries := 2\<rparr>,
     pending 2 4])"
  by (simp add: recoverProcessTasks_def update_multi_def recover_def orphaned_def
        example_queue_def pending_def)

text \<open>The two outcomes of \<open>findOneAndUpdate\<close>, and the record that \<open>ack\<close> and \<open>error\<close> update.\<close>

lemma findOneAndUpdate_cases:
  assumes "findOneAndUpdate P upd key f jobs = ((e, d), jobs')"
  obtains (untouched) "d = None" "jobs' = jobs" "f \<noteq> None \<or> (\<forall>j\<in>set jobs. \<not> P j)"
        "e = None \<longleftrightarrow> f = None"
  | (updated) k where "f = None" "e = None" "k < length jobs" "P (jobs ! k)"
        "select_one key P jobs = Some k"
        "d = Some (upd (jobs ! k))" "jobs' = jobs[k := upd (jobs ! k)]"
proof (cases f)
  case (Some a)
  obtain m b where "a = Fault m b" by (cases a)
  with Some assms have "d = None" "jobs' = jobs" "e \<noteq> None"
    by (auto simp: findOneAndUpdate_def)
  with Some untouched show ?thesis by simp
next
  case None
  show ?thesis
  proof (cases "select_one key P jobs")
    case N: None
    then have "\<forall>j\<in>set jobs. \<not> P j" by (simp add: select_one_None)
    moreover from N None assms have "d = None" "jobs' = jobs" "e = None"
      by (simp_all add: findOneAndUpdate_def)
    ultimately show ?thesis using untouched None by simp
  next
    case (Some k)
    with None assms have "e = None" "d = Some (upd (jobs ! k))" "jobs' = jobs[k := upd (jobs ! k)]"
      by (simp_all add: findOneAndUpdate_def)
    with select_one_Some[OF Some] None Some updated show ?thesis by blast
  qed
qed

lemma select_one_unsorted:
  "select_one unsorted P js = Some k \<Longrightarrow> find P js = Some (js ! k)"
proof (induction js arbitrary: k)
  case Nil
  then show ?case by simp
next
  case (Cons j js)
  show ?case
  proof (cases "P j")
    case True
    with Cons.prems have "k = 0"
      by (simp add: unsorted_def split: option.splits)
    with True show ?thesis by simp
  next
    case False
    with Cons.prems obtain m where "select_one unsorted P js = Some m" "k = Suc m"
      by (auto split: option.splits)
    with Cons.IH False show ?thesis by simp
  qed
qed

lemma find_job_mem: "find_job i jobs = Some j \<Longrightarrow> j \<in> set jobs \<and> jid j = i"
  by (auto simp: find_job_def find_Some_iff)

lemma ack_found:
  assumes "find_job i jobs = Some j"
  shows "\<exists>k<length jobs. jobs ! k = j \<and>
           ack i None jobs = (Inr (view (j\<lparr>jdone := True\<rparr>)), jobs[k := j\<lparr>jdone := True\<rparr>])"
proof -
  obtain e d jobs' where r: "findOneAndUpdate (\<lambda>j. jid j = i) (\<lambda>j. j\<lparr>jdone := True\<rparr>) unsorted None jobs
      = ((e, d), jobs')"
    by (cases "findOneAndUpdate (\<lambda>j. jid j = i) (\<lambda>j. j\<lparr>jdone := True\<rparr>) unsorted None jobs") auto
  from r show ?thesis
  proof (cases rule: findOneAndUpdate_cases)
    case untouched
    with find_job_mem[OF assms] show ?thesis by auto
  next
    case (updated k)
    from select_one_unsorted[OF updated(5)] assms have "jobs ! k = j"
      by (simp add: find_job_def)
    with updated r show ?thesis by (auto simp: ack_def)
  qed
qed

lemma error_found:
  assumes "find_job i jobs = Some j"
  shows "\<exists>k<length jobs. jobs ! k = j \<and>
           error i msg None jobs = (Inr (error_view (j\<lparr>jdone := True, jerror := Some msg\<rparr>)),
                                    jobs[k := j\<lparr>jdone := True, jerror := Some msg\<rparr>])"
proof -
  obtain e d jobs' where r: "findOneAndUpdate (\<lambda>j. jid j = i)
      (\<lambda>j. j\<lparr>jdone := True, jerror := Some msg\<rparr>) unsorted None jobs = ((e, d), jobs')"
    by (cases "findOneAndUpdate (\<lambda>j. jid j = i)
      (\<lambda>j. j\<lparr>jdone := True, jerror := Some msg\<rparr>) unsorted None jobs") auto
  from r show ?thesis
  proof (cases rule: findOneAndUpdate_cases)
    case untouched
    with find_job_mem[OF assms] show ?thesis by auto
  next
    case (updated k)
    from select_one_unsorted[OF updated(5)] assms have "jobs ! k = j"
      by (simp add: find_job_def)
    with updated r show ?thesis by (auto simp: error_def)
  qed
qed

lemma ack_not_found:
  "fst (ack i None jobs) = Inl NotFoundError \<longleftrightarrow> (\<forall>j\<in>set jobs. jid j \<noteq> i)"
proof (cases "find_job i jobs")
  case None
  then have n: "\<forall>j\<in>set jobs. jid j \<noteq> i" by (simp add: find_job_def find_None_iff)
  then have "select_one unsorted (\<lambda>j. jid j = i) jobs = None" by (simp add: select_one_None)
  with n show ?thesis by (simp add: ack_def findOneAndUpdate_def)
next
  case (Some j)
  then have "\<exists>j\<in>set jobs. jid j = i" by (auto simp: find_job_def find_Some_iff)
  with ack_found[OF Some] show ?thesis by auto
qed

lemma error_not_found:
  "fst (error i msg None jobs) = Inl NotFoundError \<longleftrightarrow> (\<forall>j\<in>set jobs. jid j \<noteq> i)"
proof (cases "find_job i jobs")
  case None
  then have n: "\<forall>j\<in>set jobs. jid j \<noteq> i" by (simp add: find_job_def find_None_iff)
  then have "select_one unsorted (\<lambda>j. jid j = i) jobs = None" by (simp add: select_one_None)
  with n show ?thesis by (simp add: error_def findOneAndUpdate_def)
next
  case (Some j)
  then have "\<exists>j\<in>set jobs. jid j = i" by (auto simp: find_job_def find_Some_iff)
  with error_found[OF Some, of msg] show ?thesis by auto
qed

text \<open>
  C5. When the store call completes, \<open>ack\<close>, and likewise \<open>error\<close>, fails with the
  not-found error if and only if no record has the given id. On a record that already has
  \<open>done = true\<close>, \<open>ack\<close> succeeds and the collection is as it was; \<open>error\<close> succeeds and changes
  that record's \<open>error\<close> field to the new message and nothing else, so it leaves the
  collection as it was only when the record already holds that message.
\<close>

theorem ack_error_terminal:
  "(fst (ack i None jobs) = Inl NotFoundError \<longleftrightarrow> (\<forall>j\<in>set jobs. jid j \<noteq> i))
   \<and> (fst (error i msg None jobs) = Inl NotFoundError \<longleftrightarrow> (\<forall>j\<in>set jobs. jid j \<noteq> i))
   \<and> (find_job i jobs = Some j \<and> jdone j \<longrightarrow> ack i None jobs = (Inr (view j), jobs))
   \<and> (find_job i jobs = Some j \<and> jdone j \<longrightarrow>
        fst (error i msg None jobs) = Inr (error_view (j\<lparr>jerror := Some msg\<rparr>))
        \<and> (\<exists>k<length jobs. jobs ! k = j
              \<and> snd (error i msg None jobs) = jobs[k := j\<lparr>jerror := Some msg\<rparr>]))
   \<and> (find_job i jobs = Some j \<and> jdone j \<and> jerror j = Some msg \<longrightarrow>
        error i msg None jobs = (Inr (error_view j), jobs))"
proof (intro conjI impI)
  show "fst (ack i None jobs) = Inl NotFoundError \<longleftrightarrow> (\<forall>j\<in>set jobs. jid j \<noteq> i)"
    by (rule ack_not_found)
  show "fst (error i msg None jobs) = Inl NotFoundError \<longleftrightarrow> (\<forall>j\<in>set jobs. jid j \<noteq> i)"
    by (rule error_not_found)
next
  assume a: "find_job i jobs = Some j \<and> jdone j"
  then have same: "j\<lparr>jdone := True\<rparr> = j" by simp
  from a ack_found[of i jobs j] obtain k where "k < length jobs" "jobs ! k = j"
    "ack i None jobs = (Inr (view (j\<lparr>jdone := True\<rparr>)), jobs[k := j\<lparr>jdone := True\<rparr>])" by blast
  moreover from this(2) have "jobs[k := j] = jobs" by auto
  ultimately show "ack i None jobs = (Inr (view j), jobs)"
    using same by simp
next
  assume a: "find_job i jobs = Some j \<and> jdone j"
  then have same: "j\<lparr>jdone := True, jerror := Some msg\<rparr> = j\<lparr>jerror := Some msg\<rparr>" by simp
  from a error_found[of i jobs j msg] obtain k where k: "k < length jobs" "jobs ! k = j"
    "error i msg None jobs = (Inr (error_view (j\<lparr>jdone := True, jerror := Some msg\<rparr>)),
                                    jobs[k := j\<lparr>jdone := True, jerror := Some msg\<rparr>])" by blast
  from k(3) same show "fst (error i msg None jobs) = Inr (error_view (j\<lparr>jerror := Some msg\<rparr>))"
    by simp
  from k same show "\<exists>k<length jobs. jobs ! k = j
              \<and> snd (error i msg None jobs) = jobs[k := j\<lparr>jerror := Some msg\<rparr>]"
    by auto
next
  assume a: "find_job i jobs = Some j \<and> jdone j \<and> jerror j = Some msg"
  then have same: "j\<lparr>jdone := True, jerror := Some msg\<rparr> = j" by simp
  from a error_found[of i jobs j msg] obtain k where k: "k < length jobs" "jobs ! k = j"
    "error i msg None jobs = (Inr (error_view (j\<lparr>jdone := True, jerror := Some msg\<rparr>)),
                                    jobs[k := j\<lparr>jdone := True, jerror := Some msg\<rparr>])" by blast
  moreover from k(2) have "jobs[k := j] = jobs" by auto
  ultimately show "error i msg None jobs = (Inr (error_view j), jobs)"
    using same by simp
qed

theorem ack_error_terminal_witness:
  "find_job 1 [(pending 1 3)\<lparr>jdone := True\<rparr>] = Some ((pending 1 3)\<lparr>jdone := True\<rparr>)
   \<and> jdone ((pending 1 3)\<lparr>jdone := True\<rparr>)
   \<and> ack 1 None [(pending 1 3)\<lparr>jdone := True\<rparr>] =
       (Inr (view ((pending 1 3)\<lparr>jdone := True\<rparr>)), [(pending 1 3)\<lparr>jdone := True\<rparr>])
   \<and> fst (error 1 ''boom'' None [(pending 1 3)\<lparr>jdone := True\<rparr>]) =
       Inr (error_view ((pending 1 3)\<lparr>jdone := True, jerror := Some ''boom''\<rparr>))
   \<and> find_job 1 [(pending 1 3)\<lparr>jdone := True, jerror := Some ''boom''\<rparr>] =
       Some ((pending 1 3)\<lparr>jdone := True, jerror := Some ''boom''\<rparr>)
   \<and> jerror ((pending 1 3)\<lparr>jdone := True, jerror := Some ''boom''\<rparr>) = Some ''boom''
   \<and> error 1 ''boom'' None [(pending 1 3)\<lparr>jdone := True, jerror := Some ''boom''\<rparr>] =
       (Inr (error_view ((pending 1 3)\<lparr>jdone := True, jerror := Some ''boom''\<rparr>)),
        [(pending 1 3)\<lparr>jdone := True, jerror := Some ''boom''\<rparr>])"
proof -
  let ?d = "(pending 1 3)\<lparr>jdone := True\<rparr>"
  let ?e = "(pending 1 3)\<lparr>jdone := True, jerror := Some ''boom''\<rparr>"
  have a: "find_job 1 [?d] = Some ?d" "jdone ?d"
    by (simp_all add: find_job_def pending_def)
  have b: "find_job 1 [?e] = Some ?e" "jdone ?e" "jerror ?e = Some ''boom''"
    by (simp_all add: find_job_def pending_def)
  from ack_error_terminal[of 1 "[?d]" "''boom''" ?d] a
  have c: "ack 1 None [?d] = (Inr (view ?d), [?d])"
    "fst (error 1 ''boom'' None [?d]) = Inr (error_view (?d\<lparr>jerror := Some ''boom''\<rparr>))"
    by blast+
  from ack_error_terminal[of 1 "[?e]" "''boom''" ?e] b
  have d: "error 1 ''boom'' None [?e] = (Inr (error_view ?e), [?e])"
    by blast
  from a b c d show ?thesis by simp
qed

text \<open>
  \<open>error\<close> on a record that is already done, with no error message so far, changes the
  record: it writes the message.
\<close>

theorem ack_error_terminal_counterexample:
  "find_job 1 [(pending 1 3)\<lparr>jdone := True\<rparr>] = Some ((pending 1 3)\<lparr>jdone := True\<rparr>)
   \<and> jdone ((pending 1 3)\<lparr>jdone := True\<rparr>)
   \<and> error 1 ''boom'' None [(pending 1 3)\<lparr>jdone := True\<rparr>] =
       (Inr \<lparr>view_id = 1, view_payload = 1, view_blockedUntil = 0, view_done = True,
              view_error = Some ''boom''\<rparr>,
        [(pending 1 3)\<lparr>jdone := True, jerror := Some ''boom''\<rparr>])
   \<and> snd (error 1 ''boom'' None [(pending 1 3)\<lparr>jdone := True\<rparr>]) \<noteq>
       [(pending 1 3)\<lparr>jdone := True\<rparr>]"
  by (simp add: find_job_def pending_def error_def findOneAndUpdate_def unsorted_def
        error_view_def)

text \<open>Looking a record up by its \<open>_id\<close> in a collection with distinct ids.\<close>

lemma find_job_distinct:
  "distinct (map jid jobs) \<Longrightarrow> j \<in> set jobs \<Longrightarrow> find_job (jid j) jobs = Some j"
  by (induction jobs) (auto simp: find_job_def)

lemma find_job_update:
  assumes "distinct (map jid jobs)" "k < length jobs" "jid x = jid (jobs ! k)"
  shows "find_job i (jobs[k := x]) = (if i = jid x then Some x else find_job i jobs)"
  using assms
proof (induction jobs arbitrary: k)
  case Nil
  then show ?case by simp
next
  case (Cons a jobs)
  show ?case
  proof (cases k)
    case 0
    with Cons.prems show ?thesis by (simp add: find_job_def)
  next
    case (Suc m)
    with Cons.prems have m: "m < length jobs" "jid x = jid (jobs ! m)" "distinct (map jid jobs)"
      "jid a \<notin> jid ` set jobs"
      by auto
    from m(1,2,4) have "jid a \<noteq> jid x" by (metis nth_mem imageI)
    with Cons.IH[OF m(3) m(1) m(2)] Suc show ?thesis
      by (auto simp: find_job_def)
  qed
qed

lemma find_job_map:
  assumes "\<And>j. jid (g j) = jid j"
  shows "find_job i (map g jobs) = map_option g (find_job i jobs)"
  by (induction jobs) (auto simp: find_job_def assms)

lemma find_job_filter:
  assumes "distinct (map jid jobs)" "find_job i jobs = Some j" "find_job i (filter Q jobs) = Some j'"
  shows "j' = j"
proof -
  from assms(3) have "j' \<in> set jobs" "jid j' = i"
    using find_job_mem by fastforce+
  with find_job_distinct[OF assms(1), of j'] assms(2) show ?thesis by simp
qed

lemma find_job_append:
  "find_job i jobs = Some j \<Longrightarrow> find_job i (jobs @ [d]) = Some j"
  by (induction jobs) (auto simp: find_job_def)

text \<open>What each call does to the record with a given \<open>_id\<close>.\<close>

lemma returns_id_Some: "returns_id r i \<Longrightarrow> \<exists>v. r = Inr (Some v)"
  by (cases "(r, i)" rule: returns_id.cases) auto

lemma get_retries:
  assumes "distinct (map jid jobs)" "find_job i jobs = Some j"
    "find_job i (snd (get q t0 t1 t2 fc fu jobs)) = Some j'"
  shows "retries j' =
     (if returns_id (fst (get q t0 t1 t2 fc fu jobs)) i then retries j + 1 else retries j)"
proof (cases "get q t0 t1 t2 fc fu jobs")
  case (Pair r jobs')
  show ?thesis
  proof (cases "\<exists>v. r = Inr (Some v)")
    case True
    then obtain v where v: "r = Inr (Some v)" by blast
    with Pair get_Some[of q t0 t1 t2 fc fu jobs v jobs'] obtain k where k: "k < length jobs"
      "jobs' = jobs[k := claim q t2 (jobs ! k)]" "v = view (claim q t2 (jobs ! k))"
      by blast
    have id: "jid (claim q t2 (jobs ! k)) = jid (jobs ! k)" by (simp add: claim_def)
    from k(3) have vid: "view_id v = jid (jobs ! k)" by (simp add: view_def claim_def)
    from find_job_update[OF assms(1) k(1) id, of i] k(2) Pair assms(3)
    have f: "(if i = jid (jobs ! k) then Some (claim q t2 (jobs ! k)) else find_job i jobs) = Some j'"
      by (simp add: id)
    show ?thesis
    proof (cases "i = jid (jobs ! k)")
      case True
      with find_job_distinct[OF assms(1), of "jobs ! k"] k(1) assms(2) have "j = jobs ! k"
        by simp
      moreover from True f have "j' = claim q t2 (jobs ! k)" by simp
      then have "retries j' = retries (jobs ! k) + 1" by (simp add: claim_def)
      ultimately show ?thesis using True Pair v vid by simp
    next
      case False
      with f assms(2) Pair v vid show ?thesis by simp
    qed
  next
    case False
    with Pair have "jobs' = jobs"
      by (auto simp: get_def Let_def findOneAndUpdate_def
            split: if_splits option.splits fault.splits)
    moreover from False have "\<not> returns_id r i"
      using returns_id_Some by blast
    ultimately show ?thesis using Pair assms by simp
  qed
qed

lemma get_flag_retries:
  assumes "distinct (map jid jobs)" "find_job i jobs = Some j"
    "find_job i (snd (get_flag q t1 t2 fc fu jobs)) = Some j'"
  shows "retries j' =
     (if returns_id (fst (get_flag q t1 t2 fc fu jobs)) i then retries j + 1 else retries j)"
proof (cases "get_flag q t1 t2 fc fu jobs")
  case (Pair r jobs')
  show ?thesis
  proof (cases "\<exists>v. r = Inr (Some v)")
    case True
    then obtain v where v: "r = Inr (Some v)" by blast
    with Pair get_flag_Some[of q t1 t2 fc fu jobs v jobs'] obtain k where k: "k < length jobs"
      "jobs' = jobs[k := claim_flag q t2 (jobs ! k)]" "v = view (claim_flag q t2 (jobs ! k))"
      by blast
    have id: "jid (claim_flag q t2 (jobs ! k)) = jid (jobs ! k)" by (simp add: claim_flag_def)
    from k(3) have vid: "view_id v = jid (jobs ! k)" by (simp add: view_def claim_flag_def)
    from find_job_update[OF assms(1) k(1) id, of i] k(2) Pair assms(3)
    have f: "(if i = jid (jobs ! k) then Some (claim_flag q t2 (jobs ! k)) else find_job i jobs)
        = Some j'"
      by (simp add: id)
    show ?thesis
    proof (cases "i = jid (jobs ! k)")
      case True
      with find_job_distinct[OF assms(1), of "jobs ! k"] k(1) assms(2) have "j = jobs ! k"
        by simp
      moreover from True f have "j' = claim_flag q t2 (jobs ! k)" by simp
      then have "retries j' = retries (jobs ! k) + 1" by (simp add: claim_flag_def)
      ultimately show ?thesis using True Pair v vid by simp
    next
      case False
      with f assms(2) Pair v vid show ?thesis by simp
    qed
  next
    case False
    with Pair have "jobs' = jobs"
      by (auto simp: get_flag_def Let_def findOneAndUpdate_def
            split: if_splits option.splits fault.splits)
    moreover from False have "\<not> returns_id r i"
      using returns_id_Some by blast
    ultimately show ?thesis using Pair assms by simp
  qed
qed

lemma findOneAndUpdate_retries:
  assumes "distinct (map jid jobs)" "find_job i jobs = Some j"
    "find_job i (snd (findOneAndUpdate P upd key f jobs)) = Some j'"
    "\<And>x. jid (upd x) = jid x" "\<And>x. retries (upd x) = retries x"
  shows "retries j' = retries j"
proof (cases "findOneAndUpdate P upd key f jobs")
  case (Pair r jobs')
  obtain e d where r: "r = (e, d)" by (cases r)
  from Pair[unfolded r] show ?thesis
  proof (cases rule: findOneAndUpdate_cases)
    case untouched
    with Pair assms show ?thesis by simp
  next
    case (updated k)
    from find_job_update[OF assms(1) updated(3), of "upd (jobs ! k)" i] assms(3,4) Pair updated(7)
    have f: "(if i = jid (jobs ! k) then Some (upd (jobs ! k)) else find_job i jobs) = Some j'"
      by simp
    show ?thesis
    proof (cases "i = jid (jobs ! k)")
      case True
      with find_job_distinct[OF assms(1), of "jobs ! k"] updated(3) assms(2) have "j = jobs ! k"
        by simp
      moreover from True f have "j' = upd (jobs ! k)" by simp
      ultimately show ?thesis by (simp add: assms(5))
    next
      case False
      with f assms(2) show ?thesis by simp
    qed
  qed
qed

lemma ack_retries:
  assumes "distinct (map jid jobs)" "find_job i jobs = Some j"
    "find_job i (snd (ack m f jobs)) = Some j'"
  shows "retries j' = retries j"
proof -
  have "snd (ack m f jobs) =
      snd (findOneAndUpdate (\<lambda>j. jid j = m) (\<lambda>j. j\<lparr>jdone := True\<rparr>) unsorted f jobs)"
    by (auto simp: ack_def split: prod.splits option.splits)
  with assms(3) findOneAndUpdate_retries[OF assms(1,2), of "\<lambda>j. jid j = m"
      "\<lambda>j. j\<lparr>jdone := True\<rparr>" unsorted f j']
  show ?thesis by simp
qed

lemma error_retries:
  assumes "distinct (map jid jobs)" "find_job i jobs = Some j"
    "find_job i (snd (error m msg f jobs)) = Some j'"
  shows "retries j' = retries j"
proof -
  have "snd (error m msg f jobs) =
      snd (findOneAndUpdate (\<lambda>j. jid j = m) (\<lambda>j. j\<lparr>jdone := True, jerror := Some msg\<rparr>)
             unsorted f jobs)"
    by (auto simp: error_def split: prod.splits option.splits)
  with assms(3) findOneAndUpdate_retries[OF assms(1,2), of "\<lambda>j. jid j = m"
      "\<lambda>j. j\<lparr>jdone := True, jerror := Some msg\<rparr>" unsorted f j']
  show ?thesis by simp
qed

lemma remove_matching_retries:
  assumes "distinct (map jid jobs)" "find_job i jobs = Some j"
    "find_job i (snd (remove_matching P f jobs)) = Some j'"
  shows "j' = j"
proof (cases f)
  case None
  with assms(3) have "find_job i (filter (\<lambda>j. \<not> P j) jobs) = Some j'"
    by (simp add: remove_matching_def)
  from find_job_filter[OF assms(1,2) this] show ?thesis .
next
  case (Some a)
  with assms show ?thesis by (cases a) (simp add: remove_matching_def)
qed

lemma add_retries:
  assumes "find_job i jobs = Some j" "find_job i (snd (add p fresh f jobs)) = Some j'"
  shows "j' = j"
proof -
  have "snd (add p fresh f jobs) = jobs \<or> (\<exists>d. snd (add p fresh f jobs) = jobs @ [d])"
    by (auto simp: add_def save_def split: option.splits fault.splits)
  with assms find_job_append[OF assms(1)] show ?thesis by auto
qed

lemma recoverProcessTasks_retries:
  assumes "find_job i jobs = Some j" "find_job i (snd (recoverProcessTasks q now f jobs)) = Some j'"
  shows "retries j' = (if f = None \<and> orphaned j then retries j + 1 else retries j)"
proof (cases f)
  case None
  have "snd (recoverProcessTasks q now None jobs) =
      map (\<lambda>j. if orphaned j then recover q now j else j) jobs"
    by (simp add: recoverProcessTasks_def update_multi_def)
  moreover have "find_job i (map (\<lambda>j. if orphaned j then recover q now j else j) jobs) =
      map_option (\<lambda>j. if orphaned j then recover q now j else j) (find_job i jobs)"
    by (rule find_job_map) (simp add: recover_def)
  ultimately show ?thesis using assms None by (auto simp: recover_def)
next
  case (Some a)
  with assms show ?thesis
    by (cases a) (simp add: recoverProcessTasks_def update_multi_def)
qed

text \<open>
  C7. For every call of any method of the two files and every record that is
  in the collection before and after it: \<open>retries\<close> is one more when the call is a \<open>get\<close> that
  hands over this job, or a \<open>recoverProcessTasks\<close> that reaches the store while the record
  has \<open>done = false\<close> and \<open>process = true\<close>; after every other call (\<open>add\<close>, \<open>ack\<close>, \<open>error\<close>,
  \<open>clean\<close>, \<open>reset\<close>, \<open>availableProcesses\<close>, a \<open>get\<close> that hands over another job or none) it is
  what it was. So it never decreases.
\<close>

theorem retries_steps:
  assumes "distinct (map jid jobs)" "find_job i jobs = Some j"
    "find_job i (run q c jobs) = Some j'"
  shows "retries j' = (if claims q c jobs i \<or> recovers c j then retries j + 1 else retries j)
     \<and> retries j \<le> retries j'"
proof -
  have "retries j' = (if claims q c jobs i \<or> recovers c j then retries j + 1 else retries j)"
  proof (cases c)
    case (Add p fresh f)
    with assms add_retries[of i jobs j p fresh f j'] show ?thesis by simp
  next
    case (Get t0 t1 t2 fc fu)
    with assms get_retries[of jobs i j q t0 t1 t2 fc fu j'] show ?thesis by simp
  next
    case (Get_flag t1 t2 fc fu)
    with assms get_flag_retries[of jobs i j q t1 t2 fc fu j'] show ?thesis by simp
  next
    case (Ack m f)
    with assms ack_retries[of jobs i j m f j'] show ?thesis by simp
  next
    case (Error m msg f)
    with assms error_retries[of jobs i j m msg f j'] show ?thesis by simp
  next
    case (Clean f)
    have "snd (clean q f jobs) = snd (remove_matching jdone f jobs)"
      by (simp add: clean_def split: prod.splits option.splits)
    with Clean assms remove_matching_retries[of jobs i j jdone f j'] show ?thesis by simp
  next
    case (Clean_flag f)
    have "snd (clean_flag q f jobs) =
        snd (remove_matching (\<lambda>j. jdone j \<or> maxRetries (this_options q) < retries j) f jobs)"
      by (simp add: clean_flag_def split: prod.splits option.splits)
    with Clean_flag assms
      remove_matching_retries[of jobs i j "\<lambda>j. jdone j \<or> maxRetries (this_options q) < retries j" f j']
    show ?thesis by simp
  next
    case (Reset f)
    have "snd (reset f jobs) = snd (remove_matching (\<lambda>j. True) f jobs)"
      by (simp add: reset_def split: prod.splits option.splits)
    with Reset assms remove_matching_retries[of jobs i j "\<lambda>j. True" f j'] show ?thesis by simp
  next
    case (AvailableProcesses now f)
    with assms show ?thesis by simp
  next
    case (RecoverProcessTasks now f)
    with assms recoverProcessTasks_retries[of i jobs j q now f j'] show ?thesis
      by (cases f) simp_all
  qed
  then show ?thesis by simp
qed

theorem retries_steps_witness:
  "distinct (map jid [pending 1 3, pending 2 4])
   \<and> find_job 2 [pending 1 3, pending 2 4] = Some (pending 2 4)
   \<and> find_job 2 (run example_queue (Get 5 5 5 None None) [pending 1 3, pending 2 4]) =
       Some (pending 2 4)
   \<and> find_job 1 [pending 1 3, pending 2 4] = Some (pending 1 3)
   \<and> find_job 1 (run example_queue (Get 5 5 5 None None) [pending 1 3, pending 2 4]) =
       Some ((pending 1 3)\<lparr>blockedUntil := 30005, workerId := ''w1'',
                       workerHostname := ''host'', retries := 1\<rparr>)
   \<and> claims example_queue (Get 5 5 5 None None) [pending 1 3, pending 2 4] 1
   \<and> retries ((pending 1 3)\<lparr>blockedUntil := 30005, workerId := ''w1'',
                       workerHostname := ''host'', retries := 1\<rparr>) = retries (pending 1 3) + 1
   \<and> retries (pending 1 3) \<le> retries ((pending 1 3)\<lparr>blockedUntil := 30005, workerId := ''w1'',
                       workerHostname := ''host'', retries := 1\<rparr>)"
proof -
  let ?js = "[pending 1 3, pending 2 4]"
  let ?c = "(pending 1 3)\<lparr>blockedUntil := 30005, workerId := ''w1'',
                       workerHostname := ''host'', retries := 1\<rparr>"
  have g: "get example_queue 5 5 5 None None ?js =
      (Inr (Some \<lparr>view_id = 1, view_payload = 1, view_blockedUntil = 30005, view_done = False\<rparr>),
       [?c, pending 2 4])"
    by (simp add: example_queue_def pending_def get_def Let_def findOneAndUpdate_def
          claimable_def claim_def in_process_def view_def)
  have a: "distinct (map jid ?js)" by (simp add: pending_def)
  have b: "find_job 1 ?js = Some (pending 1 3)" "find_job 2 ?js = Some (pending 2 4)"
    by (simp_all add: find_job_def pending_def)
  have r: "run example_queue (Get 5 5 5 None None) ?js = [?c, pending 2 4]"
    using g by simp
  have c: "find_job 1 (run example_queue (Get 5 5 5 None None) ?js) = Some ?c"
    "find_job 2 (run example_queue (Get 5 5 5 None None) ?js) = Some (pending 2 4)"
    unfolding r by (simp_all add: find_job_def pending_def)
  have d: "claims example_queue (Get 5 5 5 None None) ?js 1" using g by simp
  from retries_steps[OF a b(1) c(1)] d
  have "retries ?c = retries (pending 1 3) + 1" "retries (pending 1 3) \<le> retries ?c"
    by simp_all
  with a b c d show ?thesis by simp
qed

text \<open>
  \<open>retries\<close> also increases without a claim: \<open>recoverProcessTasks\<close> adds 1 to the \<open>retries\<close> of
  an orphaned record.
\<close>

theorem retries_steps_counterexample:
  "\<not> claims example_queue (RecoverProcessTasks 1000 None)
       [(pending 1 3)\<lparr>blockedUntil := 500, retries := 1, process := True\<rparr>] 1
   \<and> find_job 1 [(pending 1 3)\<lparr>blockedUntil := 500, retries := 1, process := True\<rparr>] =
       Some ((pending 1 3)\<lparr>blockedUntil := 500, retries := 1, process := True\<rparr>)
   \<and> find_job 1 (run example_queue (RecoverProcessTasks 1000 None)
         [(pending 1 3)\<lparr>blockedUntil := 500, retries := 1, process := True\<rparr>]) =
       Some ((pending 1 3)\<lparr>blockedUntil := 31000, workerId := ''w1'', workerHostname := ''host'',
                            retries := 2\<rparr>)
   \<and> retries ((pending 1 3)\<lparr>blockedUntil := 500, retries := 1, process := True\<rparr>) = 1
   \<and> retries ((pending 1 3)\<lparr>blockedUntil := 31000, workerId := ''w1'', workerHostname := ''host'',
                            retries := 2\<rparr>) = 2"
  by (simp add: recoverProcessTasks_def update_multi_def recover_def orphaned_def
        example_queue_def pending_def find_job_def)

text \<open>The record that a claim leaves behind, and what a later \<open>get\<close> needs to select it.\<close>

lemma get_leaves:
  assumes "get q t0 t1 t2 fc fu jobs = (Inr (Some v), jobs')" "distinct (map jid jobs)"
  shows "\<exists>c. find_job (view_id v) jobs' = Some c \<and> jid c = view_id v
           \<and> blockedUntil c = view_blockedUntil v \<and> \<not> jdone c"
proof -
  from get_Some[OF assms(1)] obtain k where k: "k < length jobs" "claimable q t1 (jobs ! k)"
    "jobs' = jobs[k := claim q t2 (jobs ! k)]" "v = view (claim q t2 (jobs ! k))"
    by blast
  let ?c = "claim q t2 (jobs ! k)"
  have id: "jid ?c = jid (jobs ! k)" by (simp add: claim_def)
  from find_job_update[OF assms(2) k(1) id, of "jid ?c"] k(3)
  have "find_job (jid ?c) jobs' = Some ?c" by simp
  moreover from k(4) have "view_id v = jid ?c" "view_blockedUntil v = blockedUntil ?c"
    by (simp_all add: view_def)
  moreover from k(2) have "\<not> jdone ?c" by (simp add: claimable_def claim_def)
  ultimately show ?thesis by simp
qed

lemma get_flag_leaves:
  assumes "get_flag q t1 t2 fc fu jobs = (Inr (Some v), jobs')" "distinct (map jid jobs)"
  shows "\<exists>c. find_job (view_id v) jobs' = Some c \<and> jid c = view_id v \<and> process c"
proof -
  from get_flag_Some[OF assms(1)] obtain k where k: "k < length jobs"
    "jobs' = jobs[k := claim_flag q t2 (jobs ! k)]" "v = view (claim_flag q t2 (jobs ! k))"
    by blast
  let ?c = "claim_flag q t2 (jobs ! k)"
  have id: "jid ?c = jid (jobs ! k)" by (simp add: claim_flag_def)
  from find_job_update[OF assms(2) k(1) id, of "jid ?c"] k(2)
  have "find_job (jid ?c) jobs' = Some ?c" by simp
  moreover from k(3) have "view_id v = jid ?c" by (simp add: view_def)
  moreover have "process ?c" by (simp add: claim_flag_def)
  ultimately show ?thesis by simp
qed

lemma get_returns_claimable:
  assumes "returns_id (fst (get q u0 u1 u2 gc gu later)) i" "distinct (map jid later)"
    "find_job i later = Some c"
  shows "claimable q u1 c"
proof -
  from returns_id_Some[OF assms(1)] obtain w where w: "fst (get q u0 u1 u2 gc gu later) = Inr (Some w)"
    by blast
  then have "get q u0 u1 u2 gc gu later = (Inr (Some w), snd (get q u0 u1 u2 gc gu later))"
    by (metis prod.collapse)
  from get_Some[OF this] obtain m where m: "m < length later" "claimable q u1 (later ! m)"
    "w = view (claim q u2 (later ! m))" by blast
  from m(3) w assms(1) have "jid (later ! m) = i" by (simp add: view_def claim_def)
  with find_job_distinct[OF assms(2), of "later ! m"] m(1) assms(3) have "later ! m = c"
    by auto
  with m(2) show ?thesis by simp
qed

lemma get_flag_returns_claimable:
  assumes "returns_id (fst (get_flag q u1 u2 gc gu later)) i" "distinct (map jid later)"
    "find_job i later = Some c"
  shows "claimable_flag q u1 c"
proof -
  from returns_id_Some[OF assms(1)] obtain w where w: "fst (get_flag q u1 u2 gc gu later) = Inr (Some w)"
    by blast
  then have "get_flag q u1 u2 gc gu later = (Inr (Some w), snd (get_flag q u1 u2 gc gu later))"
    by (metis prod.collapse)
  from get_flag_Some[OF this] obtain m where m: "m < length later" "claimable_flag q u1 (later ! m)"
    "w = view (claim_flag q u2 (later ! m))" by blast
  from m(3) w assms(1) have "jid (later ! m) = i" by (simp add: view_def claim_flag_def)
  with find_job_distinct[OF assms(2), of "later ! m"] m(1) assms(3) have "later ! m = c"
    by auto
  with m(2) show ?thesis by simp
qed

lemma get_returns_oldest:
  assumes "c \<in> set later" "claimable q u1 c"
    "int (length (filter (in_process q u0) later)) < maxJobsInProcess (this_options q)"
    "\<forall>k\<in>set later. k \<noteq> c \<and> claimable q u1 k \<longrightarrow> createdAt c < createdAt k"
  shows "returns_id (fst (get q u0 u1 u2 None None later)) (jid c)"
proof -
  from assms(1,2) have "select_one createdAt (claimable q u1) later \<noteq> None"
    by (auto simp: select_one_None)
  then obtain m where m: "select_one createdAt (claimable q u1) later = Some m" by blast
  from select_one_Some[OF m] assms(1,2) have s: "m < length later" "claimable q u1 (later ! m)"
    "createdAt (later ! m) \<le> createdAt c" by auto
  have "later ! m = c"
  proof (rule ccontr)
    assume "later ! m \<noteq> c"
    with s(1,2) assms(4) have "createdAt c < createdAt (later ! m)" by auto
    with s(3) show False by simp
  qed
  with m assms(3) show ?thesis
    by (simp add: get_def Let_def findOneAndUpdate_def view_def claim_def)
qed

text \<open>
  C4. Take a job that \<open>get\<close> has handed over and whose record is, in a later
  collection, as the claim left it (no \<open>ack\<close>, no \<open>error\<close>). In \<open>src/lib/mongoose-queue.js\<close>: no
  \<open>get\<close> whose clock reads \<open>now \<le> blockedUntil\<close> hands it over; the record satisfies the filter
  of \<open>get\<close> again exactly when \<open>now > blockedUntil\<close> and its \<open>retries \<le> maxRetries\<close>; and then a
  \<open>get\<close> whose store calls complete and whose count admits it hands this job over, provided
  every other claimable record is newer. In \<open>src/unnamed/part_000\<close> no later \<open>get\<close> hands it
  over, whatever the time: its \<open>process\<close> flag is set.
\<close>

theorem lease_expiry:
  "(get q t0 t1 t2 fc fu jobs = (Inr (Some v), jobs') \<and> distinct (map jid jobs)
      \<and> distinct (map jid later) \<and> find_job (view_id v) later = find_job (view_id v) jobs'
    \<longrightarrow> (\<exists>c. find_job (view_id v) later = Some c \<and> blockedUntil c = view_blockedUntil v
          \<and> \<not> jdone c
          \<and> (u1 \<le> view_blockedUntil v \<longrightarrow>
                \<not> returns_id (fst (get q u0 u1 u2 gc gu later)) (view_id v))
          \<and> (claimable q u1 c \<longleftrightarrow>
                view_blockedUntil v < u1 \<and> retries c \<le> maxRetries (this_options q))
          \<and> (view_blockedUntil v < u1 \<and> retries c \<le> maxRetries (this_options q)
              \<and> int (length (filter (in_process q u0) later)) < maxJobsInProcess (this_options q)
              \<and> (\<forall>k\<in>set later. k \<noteq> c \<and> claimable q u1 k \<longrightarrow> createdAt c < createdAt k)
              \<longrightarrow> returns_id (fst (get q u0 u1 u2 None None later)) (view_id v))))
   \<and> (get_flag q t1 t2 fc fu jobs = (Inr (Some v), jobs') \<and> distinct (map jid jobs)
      \<and> distinct (map jid later) \<and> find_job (view_id v) later = find_job (view_id v) jobs'
    \<longrightarrow> \<not> returns_id (fst (get_flag q u1 u2 gc gu later)) (view_id v))"
proof (intro conjI impI)
  assume a: "get q t0 t1 t2 fc fu jobs = (Inr (Some v), jobs') \<and> distinct (map jid jobs)
      \<and> distinct (map jid later) \<and> find_job (view_id v) later = find_job (view_id v) jobs'"
  with get_leaves[of q t0 t1 t2 fc fu jobs v jobs'] obtain c where
    c: "find_job (view_id v) later = Some c" "jid c = view_id v"
      "blockedUntil c = view_blockedUntil v" "\<not> jdone c"
    by auto
  from a have dl: "distinct (map jid later)" by simp
  have 1: "\<not> returns_id (fst (get q u0 u1 u2 gc gu later)) (view_id v)"
    if "u1 \<le> view_blockedUntil v"
  proof
    assume "returns_id (fst (get q u0 u1 u2 gc gu later)) (view_id v)"
    from get_returns_claimable[OF this dl c(1)] c(3) that show False
      by (simp add: claimable_def)
  qed
  have 2: "claimable q u1 c \<longleftrightarrow>
      view_blockedUntil v < u1 \<and> retries c \<le> maxRetries (this_options q)"
    using c(3,4) by (simp add: claimable_def)
  have 3: "returns_id (fst (get q u0 u1 u2 None None later)) (view_id v)"
    if h: "view_blockedUntil v < u1 \<and> retries c \<le> maxRetries (this_options q)
        \<and> int (length (filter (in_process q u0) later)) < maxJobsInProcess (this_options q)
        \<and> (\<forall>k\<in>set later. k \<noteq> c \<and> claimable q u1 k \<longrightarrow> createdAt c < createdAt k)"
  proof -
    from find_job_mem[OF c(1)] have "c \<in> set later" by simp
    moreover from h 2 have "claimable q u1 c" by simp
    ultimately show ?thesis
      using get_returns_oldest[of c later q u1 u0 u2] h c(2) by simp
  qed
  from c(1,3,4) 1 2 3
  show "\<exists>c. find_job (view_id v) later = Some c \<and> blockedUntil c = view_blockedUntil v
          \<and> \<not> jdone c
          \<and> (u1 \<le> view_blockedUntil v \<longrightarrow>
                \<not> returns_id (fst (get q u0 u1 u2 gc gu later)) (view_id v))
          \<and> (claimable q u1 c \<longleftrightarrow>
                view_blockedUntil v < u1 \<and> retries c \<le> maxRetries (this_options q))
          \<and> (view_blockedUntil v < u1 \<and> retries c \<le> maxRetries (this_options q)
              \<and> int (length (filter (in_process q u0) later)) < maxJobsInProcess (this_options q)
              \<and> (\<forall>k\<in>set later. k \<noteq> c \<and> claimable q u1 k \<longrightarrow> createdAt c < createdAt k)
              \<longrightarrow> returns_id (fst (get q u0 u1 u2 None None later)) (view_id v))"
    by blast
next
  assume a: "get_flag q t1 t2 fc fu jobs = (Inr (Some v), jobs') \<and> distinct (map jid jobs)
      \<and> distinct (map jid later) \<and> find_job (view_id v) later = find_job (view_id v) jobs'"
  with get_flag_leaves[of q t1 t2 fc fu jobs v jobs'] obtain c where
    c: "find_job (view_id v) later = Some c" "process c"
    by auto
  from a have dl: "distinct (map jid later)" by simp
  show "\<not> returns_id (fst (get_flag q u1 u2 gc gu later)) (view_id v)"
  proof
    assume "returns_id (fst (get_flag q u1 u2 gc gu later)) (view_id v)"
    from get_flag_returns_claimable[OF this dl c(1)] c(2) show False
      by (simp add: claimable_flag_def)
  qed
qed

theorem lease_expiry_witness:
  "get example_queue 5 5 5 None None [pending 1 3] =
     (Inr (Some \<lparr>view_id = 1, view_payload = 1, view_blockedUntil = 30005, view_done = False\<rparr>),
      [(pending 1 3)\<lparr>blockedUntil := 30005, workerId := ''w1'',
                       workerHostname := ''host'', retries := 1\<rparr>])
   \<and> distinct (map jid [pending 1 3])
   \<and> \<not> returns_id (fst (get example_queue 30005 30005 30005 None None
         [(pending 1 3)\<lparr>blockedUntil := 30005, workerId := ''w1'',
                       workerHostname := ''host'', retries := 1\<rparr>])) 1
   \<and> returns_id (fst (get example_queue 30006 30006 30006 None None
         [(pending 1 3)\<lparr>blockedUntil := 30005, workerId := ''w1'',
                       workerHostname := ''host'', retries := 1\<rparr>])) 1
   \<and> get_flag example_queue 5 5 None None [pending 1 3] =
     (Inr (Some \<lparr>view_id = 1, view_payload = 1, view_blockedUntil = 30005, view_done = False\<rparr>),
      [(pending 1 3)\<lparr>blockedUntil := 30005, workerId := ''w1'',
                       workerHostname := ''host'', process := True, retries := 1\<rparr>])
   \<and> \<not> returns_id (fst (get_flag example_queue 40000 40000 None None
         [(pending 1 3)\<lparr>blockedUntil := 30005, workerId := ''w1'',
                       workerHostname := ''host'', process := True, retries := 1\<rparr>])) 1"
proof -
  let ?v = "\<lparr>view_id = 1, view_payload = 1, view_blockedUntil = 30005, view_done = False\<rparr>"
  let ?c = "(pending 1 3)\<lparr>blockedUntil := 30005, workerId := ''w1'',
                       workerHostname := ''host'', retries := 1\<rparr>"
  let ?cf = "(pending 1 3)\<lparr>blockedUntil := 30005, workerId := ''w1'',
                       workerHostname := ''host'', process := True, retries := 1\<rparr>"
  have g: "get example_queue 5 5 5 None None [pending 1 3] = (Inr (Some ?v), [?c])"
    by (simp add: example_queue_def pending_def get_def Let_def findOneAndUpdate_def
          claimable_def claim_def in_process_def view_def)
  have gf: "get_flag example_queue 5 5 None None [pending 1 3] = (Inr (Some ?v), [?cf])"
    by (simp add: example_queue_def pending_def get_flag_def Let_def findOneAndUpdate_def
          claimable_flag_def claim_flag_def view_def)
  have d: "distinct (map jid [pending 1 3])" "distinct (map jid [?c])" "distinct (map jid [?cf])"
    by simp_all
  have f: "find_job (view_id ?v) [?c] = Some ?c" "find_job (view_id ?v) [?cf] = Some ?cf"
    by (simp_all add: find_job_def pending_def)
  have r: "retries ?c \<le> maxRetries (this_options example_queue)"
    "int (length (filter (in_process example_queue 30006) [?c]))
       < maxJobsInProcess (this_options example_queue)"
    by (simp_all add: example_queue_def pending_def in_process_def)
  from lease_expiry[of example_queue 5 5 5 None None "[pending 1 3]" ?v "[?c]" "[?c]"
      30005 30005 30005 None None] g d f
  have 1: "\<not> returns_id (fst (get example_queue 30005 30005 30005 None None [?c])) 1"
    by auto
  from lease_expiry[of example_queue 5 5 5 None None "[pending 1 3]" ?v "[?c]" "[?c]"
      30006 30006 30006 None None] g d f r
  have 2: "returns_id (fst (get example_queue 30006 30006 30006 None None [?c])) 1"
    by auto
  from lease_expiry[of example_queue 5 5 5 None None "[pending 1 3]" ?v "[?cf]" "[?cf]"
      40000 40000 40000 None None] gf d f
  have 3: "\<not> returns_id (fst (get_flag example_queue 40000 40000 None None [?cf])) 1"
    by auto
  from g gf d(1) 1 2 3 show ?thesis by simp
qed

text \<open>
  At \<open>now = blockedUntil\<close> the job is not claimable: the filter is \<open>blockedUntil < now\<close>. A job
  claimed with \<open>retries = maxRetries\<close> is never claimable again, and in \<open>src/unnamed/part_000\<close>
  a claimed job stays out of reach long after its lease has run out.
\<close>

theorem lease_expiry_counterexample:
  "get example_queue 5 5 5 None None [pending 1 3] =
     (Inr (Some \<lparr>view_id = 1, view_payload = 1, view_blockedUntil = 30005, view_done = False\<rparr>),
      [(pending 1 3)\<lparr>blockedUntil := 30005, workerId := ''w1'',
                       workerHostname := ''host'', retries := 1\<rparr>])
   \<and> get example_queue 30005 30005 30005 None None
        [(pending 1 3)\<lparr>blockedUntil := 30005, workerId := ''w1'',
                       workerHostname := ''host'', retries := 1\<rparr>] =
     (Inr None,
      [(pending 1 3)\<lparr>blockedUntil := 30005, workerId := ''w1'',
                       workerHostname := ''host'', retries := 1\<rparr>])
   \<and> get example_queue 5 5 5 None None [(pending 1 3)\<lparr>retries := 5\<rparr>] =
     (Inr (Some \<lparr>view_id = 1, view_payload = 1, view_blockedUntil = 30005, view_done = False\<rparr>),
      [(pending 1 3)\<lparr>blockedUntil := 30005, workerId := ''w1'',
                       workerHostname := ''host'', retries := 6\<rparr>])
   \<and> get example_queue 40000 40000 40000 None None
        [(pending 1 3)\<lparr>blockedUntil := 30005, workerId := ''w1'',
                       workerHostname := ''host'', retries := 6\<rparr>] =
     (Inr None,
      [(pending 1 3)\<lparr>blockedUntil := 30005, workerId := ''w1'',
                       workerHostname := ''host'', retries := 6\<rparr>])
   \<and> get_flag (example_queue\<lparr>this_options := (this_options example_queue)\<lparr>maxJobsInProcess := 2\<rparr>\<rparr>)
        5 5 None None [pending 1 3] =
     (Inr (Some \<lparr>view_id = 1, view_payload = 1, view_blockedUntil = 30005, view_done = False\<rparr>),
      [(pending 1 3)\<lparr>blockedUntil := 30005, workerId := ''w1'',
                       workerHostname := ''host'', process := True, retries := 1\<rparr>])
   \<and> get_flag (example_queue\<lparr>this_options := (this_options example_queue)\<lparr>maxJobsInProcess := 2\<rparr>\<rparr>)
        40000 40000 None None
        [(pending 1 3)\<lparr>blockedUntil := 30005, workerId := ''w1'',
                       workerHostname := ''host'', process := True, retries := 1\<rparr>] =
     (Inr None,
      [(pending 1 3)\<lparr>blockedUntil := 30005, workerId := ''w1'',
                       workerHostname := ''host'', process := True, retries := 1\<rparr>])"
  by (simp add: example_queue_def pending_def get_def get_flag_def Let_def findOneAndUpdate_def
          claimable_def claim_def claimable_flag_def claim_flag_def in_process_def view_def)

text \<open>
  The callbacks other than the one \<open>get\<close> gives to \<open>count\<close> test \<open>err\<close> first and pass it on.
\<close>

lemma store_error_passed_on:
  "add (Some p) fresh (Some (Fault e a)) jobs = (Inl (StoreError e), jobs)"
  "availableProcesses q now (Some (Fault e a)) jobs = Inl (StoreError e)"
  "ack i (Some (Fault e a)) jobs = (Inl (StoreError e), jobs)"
  "error i msg (Some (Fault e a)) jobs = (Inl (StoreError e), jobs)"
  "clean q (Some (Fault e a)) jobs = (Some (StoreError e), jobs)"
  "clean_flag q (Some (Fault e a)) jobs = (Some (StoreError e), jobs)"
  "reset (Some (Fault e a)) jobs = (Some (StoreError e), jobs)"
  "recoverProcessTasks q now (Some (Fault e a)) jobs = (Inl (StoreError e), jobs)"
  "claimed (findOneAndUpdate P upd key (Some (Fault e a)) jobs) = (Inl (StoreError e), jobs)"
  by (simp_all add: add_def save_def availableProcesses_def ack_def error_def clean_def
        clean_flag_def reset_def recoverProcessTasks_def findOneAndUpdate_def
        remove_matching_def update_multi_def)

end
